theory Spec2Isabelle
  imports Complex_Main "HOL-Library.AList"
begin

section \<open>Values, dictionaries and errors\<close>

text \<open>
  The embedding follows \<^verbatim>\<open>prog_models/prognostics_model.py\<close>.

  Python numbers are modelled by the rationals: an \<^verbatim>\<open>int\<close> is exact, and a
  \<^verbatim>\<open>float\<close> is taken with exact arithmetic (rounding is outside this model).
  A value whose Python type matters to a check of the source is a \<open>pyval\<close>:
  \<open>PyInt\<close> and \<open>PyFloat\<close> are the two types that \<^verbatim>\<open>type(v) is int\<close> and
  \<^verbatim>\<open>type(v) is float\<close> accept, \<open>PyBool\<close> is an instance of \<^verbatim>\<open>numbers.Number\<close>
  of another type, and \<open>PyOther\<close> is any object that is not a number (a string, None).
\<close>

datatype pyval = PyInt int | PyFloat rat | PyBool bool | PyOther

fun isinstance_Number :: "pyval \<Rightarrow> bool" where
  "isinstance_Number (PyInt i) = True"
| "isinstance_Number (PyFloat r) = True"
| "isinstance_Number (PyBool b) = True"
| "isinstance_Number PyOther = False"

fun type_is_int_or_float :: "pyval \<Rightarrow> bool" where
  "type_is_int_or_float (PyInt i) = True"
| "type_is_int_or_float (PyFloat r) = True"
| "type_is_int_or_float (PyBool b) = False"
| "type_is_int_or_float PyOther = False"

fun num :: "pyval \<Rightarrow> rat" where
  "num (PyInt i) = of_int i"
| "num (PyFloat r) = r"
| "num (PyBool b) = (if b then 1 else 0)"
| "num PyOther = 0"

text \<open>
  A Python dict is an association list in insertion order; \<open>map_of\<close> is the lookup,
  \<open>AList.update\<close> is item assignment (an existing key keeps its place, a new key goes
  to the end), \<open>map fst\<close> gives the keys and \<open>map snd\<close> the values.
\<close>

type_synonym 'v dict = "(string \<times> 'v) list"

type_synonym vec = "rat dict"

definition dict_update :: "'v dict \<Rightarrow> 'v dict \<Rightarrow> 'v dict" where
  "dict_update d other = fold (\<lambda>(k, v) acc. AList.update k v acc) other d"

datatype error =
    ProgModelInputException
  | ProgModelTypeError
  | KeyError string
  | TypeError

section \<open>The model contract\<close>

text \<open>
  A model instance: the reference of its \<^verbatim>\<open>parameters\<close> dict, its key lists and its
  equations. \<^verbatim>\<open>initialize\<close>, \<^verbatim>\<open>next_state\<close> and \<^verbatim>\<open>output\<close> are abstract in the
  base class, so every instance brings them; \<^verbatim>\<open>event_state\<close> and \<^verbatim>\<open>threshold_met\<close>
  have a default in the base class, so an instance overrides them or not. The equations
  are total functions: an exception raised inside a model's own equation is outside
  this model.
\<close>

type_synonym addr = nat

record model =
  parameters :: addr
  inputs :: "string list"
  states :: "string list"
  outputs :: "string list"
  events :: "string list"
  initialize_eqn :: "vec \<Rightarrow> vec \<Rightarrow> vec"
  next_state_eqn :: "rat \<Rightarrow> vec \<Rightarrow> vec \<Rightarrow> rat \<Rightarrow> vec"
  output_eqn :: "rat \<Rightarrow> vec \<Rightarrow> vec"
  event_state_eqn :: "(rat \<Rightarrow> vec \<Rightarrow> vec) option"
  threshold_eqn :: "(rat \<Rightarrow> vec \<Rightarrow> bool dict) option"

definition event_state :: "model \<Rightarrow> rat \<Rightarrow> vec \<Rightarrow> vec" where
  "event_state m t x = (case event_state_eqn m of None \<Rightarrow> [] | Some f \<Rightarrow> f t x)"

definition threshold_met :: "model \<Rightarrow> rat \<Rightarrow> vec \<Rightarrow> bool dict" where
  "threshold_met m t x =
     (case threshold_eqn m of
        None \<Rightarrow> map (\<lambda>(key, event_state). (key, event_state < 0)) (event_state m t x)
      | Some f \<Rightarrow> f t x)"

section \<open>The simulation driver\<close>

text \<open>
  The simulation options are a dict with the recognised keys \<^verbatim>\<open>dt\<close>, \<^verbatim>\<open>save_freq\<close>,
  \<^verbatim>\<open>horizon\<close>, \<^verbatim>\<open>threshold_eqn\<close> and \<^verbatim>\<open>x\<close>; \<open>None\<close> is an absent key.
  A \<open>config\<close> is the dict of defaults updated by the options: \<^verbatim>\<open>dt\<close>,
  \<^verbatim>\<open>save_freq\<close> and \<^verbatim>\<open>horizon\<close> are always among the defaults, so they are present;
  \<open>config_update\<close> is \<^verbatim>\<open>config.update(options)\<close>, and \<open>as_options\<close> is a config
  handed on as the options of another call.
\<close>

record options =
  opt_dt :: "pyval option"
  opt_save_freq :: "pyval option"
  opt_horizon :: "pyval option"
  opt_threshold_eqn :: "(rat \<Rightarrow> vec \<Rightarrow> bool dict) option"
  opt_x :: "vec option"

record config =
  cfg_dt :: pyval
  cfg_save_freq :: pyval
  cfg_horizon :: pyval
  cfg_threshold_eqn :: "(rat \<Rightarrow> vec \<Rightarrow> bool dict) option"
  cfg_x :: "vec option"

definition config_update :: "config \<Rightarrow> options \<Rightarrow> config" where
  "config_update config opts =
     \<lparr> cfg_dt = (case opt_dt opts of None \<Rightarrow> cfg_dt config | Some v \<Rightarrow> v),
       cfg_save_freq = (case opt_save_freq opts of None \<Rightarrow> cfg_save_freq config | Some v \<Rightarrow> v),
       cfg_horizon = (case opt_horizon opts of None \<Rightarrow> cfg_horizon config | Some v \<Rightarrow> v),
       cfg_threshold_eqn =
         (case opt_threshold_eqn opts of None \<Rightarrow> cfg_threshold_eqn config | Some f \<Rightarrow> Some f),
       cfg_x = (case opt_x opts of None \<Rightarrow> cfg_x config | Some x \<Rightarrow> Some x) \<rparr>"

definition as_options :: "config \<Rightarrow> options" where
  "as_options config =
     \<lparr> opt_dt = Some (cfg_dt config), opt_save_freq = Some (cfg_save_freq config),
       opt_horizon = Some (cfg_horizon config),
       opt_threshold_eqn = cfg_threshold_eqn config, opt_x = cfg_x config \<rparr>"

text \<open>
  An argument that should be a function is any Python object; the code asks whether it
  is callable. The loading function is such an argument.
\<close>

datatype 'f pyobj = Callable 'f | NotCallable

type_synonym loading = "(rat \<Rightarrow> vec) pyobj"

text \<open>
  The calls the driver makes to the loading function and to the model, in order, each
  with the time it is made at. The log is what "before any equation is invoked" is
  stated on.
\<close>

datatype call =
    Call_future_loading_eqn rat
  | Call_initialize
  | Call_next_state rat
  | Call_threshold_met_eqn rat
  | Call_output rat
  | Call_event_state rat

text \<open>The local variables of \<^verbatim>\<open>simulate_to_threshold\<close>, and the call log.\<close>

record sim_state =
  sim_t :: rat
  sim_u :: vec
  sim_x :: vec
  sim_threshold_met :: bool
  sim_next_save :: rat
  sim_times :: "rat list"
  sim_inputs :: "vec list"
  sim_states :: "vec list"
  sim_outputs :: "vec list"
  sim_event_states :: "vec list"
  sim_calls :: "call list"

text \<open>
  \<^verbatim>\<open>check_thresholds\<close>: without threshold keys (None or an empty list) any value of
  the mapping; with keys, the list \<^verbatim>\<open>[thresholds_met[key] for key in threshold_keys]\<close>
  is built first, so a key the mapping lacks raises KeyError.
\<close>

fun lookup_all :: "bool dict \<Rightarrow> string list \<Rightarrow> error + bool list" where
  "lookup_all thresholds_met [] = Inr []"
| "lookup_all thresholds_met (key # keys) =
     (case map_of thresholds_met key of
        None \<Rightarrow> Inl (KeyError key)
      | Some b \<Rightarrow> (case lookup_all thresholds_met keys of
                     Inl e \<Rightarrow> Inl e
                   | Inr bs \<Rightarrow> Inr (b # bs)))"

definition any :: "bool list \<Rightarrow> bool" where
  "any bs = list_ex (\<lambda>b. b) bs"

fun truthy :: "string list option \<Rightarrow> bool" where
  "truthy None = False"
| "truthy (Some []) = False"
| "truthy (Some (key # keys)) = True"

fun key_list :: "string list option \<Rightarrow> string list" where
  "key_list None = []"
| "key_list (Some keys) = keys"

definition check_thresholds :: "string list option \<Rightarrow> bool dict \<Rightarrow> error + bool" where
  "check_thresholds threshold_keys thresholds_met =
     (if \<not> truthy threshold_keys then Inr (any (map snd thresholds_met))
      else case lookup_all thresholds_met (key_list threshold_keys) of
             Inl e \<Rightarrow> Inl e
           | Inr bs \<Rightarrow> Inr (any bs))"

text \<open>
  One pass through the body of the while loop. \<^verbatim>\<open>next_state\<close>, \<^verbatim>\<open>output\<close> and
  \<^verbatim>\<open>event_state\<close> are the local variables the source binds to the model's methods
  before the loop. The additions \<^verbatim>\<open>t += dt\<close> and \<^verbatim>\<open>next_save += save_freq\<close> are
  exact here, as they are in Python for ints; for floats Python rounds each sum, which
  this model leaves out, so a statement on the number of passes is made for int steps
  only.
\<close>

definition loop_body ::
  "(rat \<Rightarrow> vec \<Rightarrow> vec \<Rightarrow> rat \<Rightarrow> vec) \<Rightarrow> (rat \<Rightarrow> vec \<Rightarrow> vec) \<Rightarrow> (rat \<Rightarrow> vec \<Rightarrow> vec) \<Rightarrow>
   (rat \<Rightarrow> vec) \<Rightarrow> (rat \<Rightarrow> vec \<Rightarrow> bool dict) \<Rightarrow> string list option \<Rightarrow>
   rat \<Rightarrow> rat \<Rightarrow> sim_state \<Rightarrow> (call list \<times> error) + sim_state" where
  "loop_body next_state output event_state' future_loading_eqn threshold_met_eqn
       threshold_keys dt save_freq s =
     (let t = sim_t s + dt;
          u = future_loading_eqn t;
          x = next_state t (sim_x s) u dt;
          calls = sim_calls s @
            [Call_future_loading_eqn t, Call_next_state t, Call_threshold_met_eqn t]
      in case check_thresholds threshold_keys (threshold_met_eqn t x) of
           Inl e \<Rightarrow> Inl (calls, e)
         | Inr met \<Rightarrow>
             if t \<ge> sim_next_save s then
               Inr (s\<lparr> sim_t := t, sim_u := u, sim_x := x, sim_threshold_met := met,
                       sim_next_save := sim_next_save s + save_freq,
                       sim_times := sim_times s @ [t],
                       sim_inputs := sim_inputs s @ [u],
                       sim_states := sim_states s @ [x],
                       sim_outputs := sim_outputs s @ [output t x],
                       sim_event_states := sim_event_states s @ [event_state' t x],
                       sim_calls := calls @ [Call_output t, Call_event_state t] \<rparr>)
             else
               Inr (s\<lparr> sim_t := t, sim_u := u, sim_x := x, sim_threshold_met := met,
                       sim_calls := calls \<rparr>))"

text \<open>
  The while loop. It is a partial function: \<open>None\<close> is a loop that does not return
  (as with \<open>dt \<le> 0\<close>, which the validation keeps out).
\<close>

partial_function (option) simulate_loop ::
  "(rat \<Rightarrow> vec \<Rightarrow> vec \<Rightarrow> rat \<Rightarrow> vec) \<Rightarrow> (rat \<Rightarrow> vec \<Rightarrow> vec) \<Rightarrow> (rat \<Rightarrow> vec \<Rightarrow> vec) \<Rightarrow>
   (rat \<Rightarrow> vec) \<Rightarrow> (rat \<Rightarrow> vec \<Rightarrow> bool dict) \<Rightarrow> string list option \<Rightarrow>
   rat \<Rightarrow> rat \<Rightarrow> rat \<Rightarrow> sim_state \<Rightarrow> ((call list \<times> error) + sim_state) option" where
  "simulate_loop next_state output event_state' future_loading_eqn threshold_met_eqn
       threshold_keys dt save_freq horizon s =
     (if \<not> sim_threshold_met s \<and> sim_t s < horizon then
        (case loop_body next_state output event_state' future_loading_eqn threshold_met_eqn
                threshold_keys dt save_freq s of
           Inl e \<Rightarrow> Some (Inl e)
         | Inr s' \<Rightarrow>
             simulate_loop next_state output event_state' future_loading_eqn threshold_met_eqn
               threshold_keys dt save_freq horizon s')
      else Some (Inr s))"

declare simulate_loop.simps [code]

text \<open>The final point is saved unless the last saved time is the current time.\<close>

definition save_final :: "model \<Rightarrow> sim_state \<Rightarrow> sim_state" where
  "save_final m s =
     (if last (sim_times s) \<noteq> sim_t s then
        s\<lparr> sim_times := sim_times s @ [sim_t s],
           sim_inputs := sim_inputs s @ [sim_u s],
           sim_states := sim_states s @ [sim_x s],
           sim_outputs := sim_outputs s @ [output_eqn m (sim_t s) (sim_x s)],
           sim_event_states := sim_event_states s @ [event_state m (sim_t s) (sim_x s)],
           sim_calls := sim_calls s @ [Call_output (sim_t s), Call_event_state (sim_t s)] \<rparr>
      else s)"

text \<open>The setup: time 0, the first input, the first state, and point 0 of the history.\<close>

definition initial_state :: "model \<Rightarrow> (rat \<Rightarrow> vec) \<Rightarrow> vec \<Rightarrow> vec option \<Rightarrow> rat \<Rightarrow> sim_state" where
  "initial_state m future_loading_eqn first_output config_x save_freq =
     (let t = 0;
          u = future_loading_eqn t;
          x = (case config_x of Some x0 \<Rightarrow> x0 | None \<Rightarrow> initialize_eqn m u first_output)
      in \<lparr> sim_t = t, sim_u = u, sim_x = x, sim_threshold_met = False,
            sim_next_save = save_freq,
            sim_times = [t], sim_inputs = [u], sim_states = [x],
            sim_outputs = [output_eqn m t x],
            sim_event_states = [event_state m t x],
            sim_calls = [Call_future_loading_eqn t] @
              (case config_x of Some x0 \<Rightarrow> [] | None \<Rightarrow> [Call_initialize]) @
              [Call_output t, Call_event_state t] \<rparr>)"

type_synonym history = "rat list \<times> vec list \<times> vec list \<times> vec list \<times> vec list"

type_synonym result = "call list \<times> (error + history)"

definition returned :: "sim_state \<Rightarrow> result" where
  "returned s =
     (sim_calls s,
      Inr (sim_times s, sim_inputs s, sim_states s, sim_outputs s, sim_event_states s))"

definition raised :: "call list \<times> error \<Rightarrow> result" where
  "raised ce = (fst ce, Inl (snd ce))"

text \<open>
  The configuration checks shared by \<^verbatim>\<open>simulate_to\<close> and \<^verbatim>\<open>simulate_to_threshold\<close>:
  the type and the sign of \<^verbatim>\<open>dt\<close>, then of \<^verbatim>\<open>save_freq\<close>.
\<close>

definition config_invalid :: "pyval \<Rightarrow> pyval \<Rightarrow> bool" where
  "config_invalid dt save_freq =
     (if \<not> type_is_int_or_float dt then True
      else if num dt \<le> 0 then True
      else if \<not> type_is_int_or_float save_freq then True
      else if num save_freq \<le> 0 then True
      else False)"

definition threshold_defaults :: config where
  "threshold_defaults =
     \<lparr> cfg_dt = PyFloat 1, cfg_save_freq = PyInt 10, cfg_horizon = PyFloat (10 ^ 100),
       cfg_threshold_eqn = None, cfg_x = None \<rparr>"

text \<open>
  The run after validation: setup, the loop, the final save. A horizon that is no
  number makes the first test \<^verbatim>\<open>t < horizon\<close> raise TypeError.
\<close>

definition run ::
  "model \<Rightarrow> (rat \<Rightarrow> vec) \<Rightarrow> vec \<Rightarrow> string list option \<Rightarrow> (rat \<Rightarrow> vec \<Rightarrow> bool dict) \<Rightarrow>
   vec option \<Rightarrow> rat \<Rightarrow> rat \<Rightarrow> pyval \<Rightarrow> ((call list \<times> error) + sim_state) option" where
  "run m future_loading_eqn first_output threshold_keys threshold_met_eqn config_x
       dt save_freq horizon =
     (let s0 = initial_state m future_loading_eqn first_output config_x save_freq
      in if \<not> isinstance_Number horizon then Some (Inl (sim_calls s0, TypeError))
         else map_option (map_sum id (save_final m))
                (simulate_loop (next_state_eqn m) (output_eqn m) (event_state m)
                   future_loading_eqn threshold_met_eqn threshold_keys
                   dt save_freq (num horizon) s0))"

definition resolve_threshold_eqn :: "model \<Rightarrow> config \<Rightarrow> rat \<Rightarrow> vec \<Rightarrow> bool dict" where
  "resolve_threshold_eqn m config =
     (case cfg_threshold_eqn config of
        Some eqn \<Rightarrow> eqn
      | None \<Rightarrow> threshold_met m)"

definition simulate_to_threshold ::
  "model \<Rightarrow> loading \<Rightarrow> vec \<Rightarrow> options \<Rightarrow> string list option \<Rightarrow> result option" where
  "simulate_to_threshold m future_loading_eqn first_output opts threshold_keys =
     (if \<not> list_all (\<lambda>key. key \<in> set (map fst first_output)) (outputs m) then
        Some ([], Inl ProgModelInputException)
      else case future_loading_eqn of
        NotCallable \<Rightarrow> Some ([], Inl ProgModelInputException)
      | Callable future_loading \<Rightarrow>
        if truthy threshold_keys \<and>
           \<not> list_all (\<lambda>key. key \<in> set (events m)) (key_list threshold_keys) then
          Some ([], Inl ProgModelInputException)
        else
          let config = config_update threshold_defaults opts in
          if config_invalid (cfg_dt config) (cfg_save_freq config) then
            Some ([], Inl ProgModelInputException)
          else
            let threshold_met_eqn = resolve_threshold_eqn m config
            in map_option (case_sum raised returned)
                 (run m future_loading first_output threshold_keys threshold_met_eqn
                    (cfg_x config) (num (cfg_dt config)) (num (cfg_save_freq config))
                    (cfg_horizon config)))"

text \<open>
  \<^verbatim>\<open>simulate_to\<close>: the time is checked, the defaults (with the threshold equation
  that answers False and the horizon \<^verbatim>\<open>time\<close>) are updated by the options, and the
  resulting config is the options of \<^verbatim>\<open>simulate_to_threshold\<close>.
\<close>

definition override_threshold :: "rat \<Rightarrow> vec \<Rightarrow> bool dict" where
  "override_threshold t x = [(''a'', False)]"

definition to_defaults :: "pyval \<Rightarrow> config" where
  "to_defaults time =
     \<lparr> cfg_dt = PyInt 1, cfg_save_freq = PyInt 10, cfg_horizon = time,
       cfg_threshold_eqn = Some override_threshold, cfg_x = None \<rparr>"

definition simulate_to ::
  "model \<Rightarrow> pyval \<Rightarrow> loading \<Rightarrow> vec \<Rightarrow> options \<Rightarrow> result option" where
  "simulate_to m time future_loading_eqn first_output opts =
     (if \<not> isinstance_Number time \<or> num time \<le> 0 then
        Some ([], Inl ProgModelInputException)
      else
        let config = config_update (to_defaults time) opts in
        if config_invalid (cfg_dt config) (cfg_save_freq config) then
          Some ([], Inl ProgModelInputException)
        else simulate_to_threshold m future_loading_eqn first_output (as_options config) None)"

section \<open>Construction and the model factory\<close>

text \<open>
  The values of a \<^verbatim>\<open>parameters\<close> dict: a number, a per-key mapping, or any other
  object (a noise function, say).
\<close>

datatype pvalue = Num rat | PerKey "rat dict" | Other

text \<open>
  \<^verbatim>\<open>parameters = {}\<close> is an attribute of the class \<^verbatim>\<open>PrognosticsModel\<close>, and
  \<^verbatim>\<open>__init__\<close> never assigns \<^verbatim>\<open>self.parameters\<close>: it updates the dict that the
  attribute lookup finds and assigns one item of it. So the dicts live in a store, and a
  class (as \<^verbatim>\<open>__init__\<close> sees it) holds the address its \<^verbatim>\<open>parameters\<close> attribute
  resolves to, with its key lists (\<open>None\<close> where \<^verbatim>\<open>hasattr\<close> is false).
\<close>

type_synonym store = "addr \<Rightarrow> pvalue dict"

definition PrognosticsModel_parameters :: addr where
  "PrognosticsModel_parameters = 0"

record pyclass =
  cls_parameters :: addr
  cls_inputs :: "string list option"
  cls_states :: "string list option"
  cls_outputs :: "string list option"

definition broadcast :: "rat \<Rightarrow> string list \<Rightarrow> rat dict" where
  "broadcast v keys = fold (\<lambda>key acc. AList.update key v acc) keys []"

fun missing_or_empty :: "string list option \<Rightarrow> bool" where
  "missing_or_empty None = True"
| "missing_or_empty (Some keys) = (length keys \<le> 0)"

definition PrognosticsModel_init :: "pyclass \<Rightarrow> pvalue dict \<Rightarrow> store \<Rightarrow> store \<times> error option" where
  "PrognosticsModel_init cls opts h =
     (let p = cls_parameters cls;
          h1 = h(p := dict_update (h p) opts)
      in if ''process_noise'' \<notin> set (map fst (h1 p)) then (h1, Some ProgModelTypeError)
         else if missing_or_empty (cls_inputs cls) then (h1, Some ProgModelTypeError)
         else if missing_or_empty (cls_states cls) then (h1, Some ProgModelTypeError)
         else if missing_or_empty (cls_outputs cls) then (h1, Some ProgModelTypeError)
         else (case map_of (h1 p) ''process_noise'' of
                 Some (Num v) \<Rightarrow>
                   (h1(p := AList.update ''process_noise''
                              (PerKey (broadcast v (key_list (cls_states cls)))) (h1 p)),
                    None)
               | _ \<Rightarrow> (h1, None)))"

text \<open>
  \<^verbatim>\<open>generate_model\<close>. An optional equation is tested by
  \<^verbatim>\<open>if eqn and not callable(eqn)\<close> and attached by \<^verbatim>\<open>if eqn\<close>: a falsy argument
  (\<^verbatim>\<open>None\<close>, the default, but also \<^verbatim>\<open>0\<close> or an empty string) raises nothing and
  leaves the inherited default in place, a truthy argument that is not callable raises
  the type error, and a function (which is truthy) is attached. The class
  \<^verbatim>\<open>NewProgModel\<close> takes its key lists from \<^verbatim>\<open>keys\<close> and inherits
  \<^verbatim>\<open>parameters\<close> and \<^verbatim>\<open>events\<close> from \<^verbatim>\<open>PrognosticsModel\<close>.
\<close>

datatype 'f optional_eqn = Falsy | TruthyNotCallable | Given 'f

fun given_not_callable :: "'f optional_eqn \<Rightarrow> bool" where
  "given_not_callable Falsy = False"
| "given_not_callable TruthyNotCallable = True"
| "given_not_callable (Given f) = False"

fun given_eqn :: "'f optional_eqn \<Rightarrow> 'f option" where
  "given_eqn Falsy = None"
| "given_eqn TruthyNotCallable = None"
| "given_eqn (Given f) = Some f"

definition generate_model ::
  "string list dict \<Rightarrow> (vec \<Rightarrow> vec \<Rightarrow> vec) pyobj \<Rightarrow> (rat \<Rightarrow> vec \<Rightarrow> vec \<Rightarrow> rat \<Rightarrow> vec) pyobj \<Rightarrow>
   (rat \<Rightarrow> vec \<Rightarrow> vec) pyobj \<Rightarrow> (rat \<Rightarrow> vec \<Rightarrow> vec) optional_eqn \<Rightarrow>
   (rat \<Rightarrow> vec \<Rightarrow> bool dict) optional_eqn \<Rightarrow> pvalue dict \<Rightarrow> store \<Rightarrow>
   store \<times> (error + model)" where
  "generate_model keys initialize_eqn' next_state_eqn' output_eqn' event_state_eqn'
       threshold_eqn' config h =
     (case initialize_eqn' of NotCallable \<Rightarrow> (h, Inl ProgModelTypeError) | Callable f_init \<Rightarrow>
     (case next_state_eqn' of NotCallable \<Rightarrow> (h, Inl ProgModelTypeError) | Callable f_next \<Rightarrow>
     (case output_eqn' of NotCallable \<Rightarrow> (h, Inl ProgModelTypeError) | Callable f_out \<Rightarrow>
      if given_not_callable event_state_eqn' then (h, Inl ProgModelTypeError)
      else if given_not_callable threshold_eqn' then (h, Inl ProgModelTypeError)
      else
     (case map_of keys ''inputs'' of None \<Rightarrow> (h, Inl ProgModelTypeError) | Some ins \<Rightarrow>
     (case map_of keys ''states'' of None \<Rightarrow> (h, Inl ProgModelTypeError) | Some sts \<Rightarrow>
     (case map_of keys ''outputs'' of None \<Rightarrow> (h, Inl ProgModelTypeError) | Some outs \<Rightarrow>
      (let NewProgModel =
             \<lparr> cls_parameters = PrognosticsModel_parameters, cls_inputs = Some ins,
               cls_states = Some sts, cls_outputs = Some outs \<rparr>;
           constructed = PrognosticsModel_init NewProgModel config h
       in (case snd constructed of
             Some e \<Rightarrow> (fst constructed, Inl e)
           | None \<Rightarrow>
               (fst constructed,
                Inr \<lparr> parameters = cls_parameters NewProgModel,
                      inputs = ins, states = sts, outputs = outs,
                      events = (case map_of keys ''events'' of None \<Rightarrow> [] | Some evs \<Rightarrow> evs),
                      initialize_eqn = f_init, next_state_eqn = f_next, output_eqn = f_out,
                      event_state_eqn = given_eqn event_state_eqn',
                      threshold_eqn = given_eqn threshold_eqn' \<rparr>)))))))))"

text \<open>
  The statically declared counterpart of a generated model, written from the
  specification's words: a subclass of \<^verbatim>\<open>PrognosticsModel\<close> that declares the key lists
  and whose \<^verbatim>\<open>initialize\<close>, \<^verbatim>\<open>next_state\<close> and \<^verbatim>\<open>output\<close> call the three
  functions; \<^verbatim>\<open>event_state\<close> and \<^verbatim>\<open>threshold_met\<close> are the inherited defaults.
\<close>

definition static_model ::
  "addr \<Rightarrow> string list \<Rightarrow> string list \<Rightarrow> string list \<Rightarrow> string list \<Rightarrow>
   (vec \<Rightarrow> vec \<Rightarrow> vec) \<Rightarrow> (rat \<Rightarrow> vec \<Rightarrow> vec \<Rightarrow> rat \<Rightarrow> vec) \<Rightarrow> (rat \<Rightarrow> vec \<Rightarrow> vec) \<Rightarrow> model" where
  "static_model p ins sts outs evs f_init f_next f_out =
     \<lparr> parameters = p, inputs = ins, states = sts, outputs = outs, events = evs,
       initialize_eqn = (\<lambda>u z. f_init u z),
       next_state_eqn = (\<lambda>t x u dt. f_next t x u dt),
       output_eqn = (\<lambda>t x. f_out t x),
       event_state_eqn = None, threshold_eqn = None \<rparr>"

section \<open>Loop invariants and specification-side definitions\<close>

text \<open>
  What holds of the local variables each time the loop condition is tested: the five
  sequences have one length, the saved times start at 0 and increase strictly, none is
  later than the current time, the current time is less than one step past the horizon,
  and when the last saved time is the current time the last saved state is the current
  state.
\<close>

definition history_inv :: "rat \<Rightarrow> rat \<Rightarrow> sim_state \<Rightarrow> bool" where
  "history_inv dt horizon s \<longleftrightarrow>
     length (sim_inputs s) = length (sim_times s) \<and>
     length (sim_states s) = length (sim_times s) \<and>
     length (sim_outputs s) = length (sim_times s) \<and>
     length (sim_event_states s) = length (sim_times s) \<and>
     sim_times s \<noteq> [] \<and> hd (sim_times s) = 0 \<and>
     sorted_wrt (<) (sim_times s) \<and>
     (\<forall>\<tau>\<in>set (sim_times s). \<tau> \<le> sim_t s) \<and>
     sim_t s < horizon + dt \<and>
     (last (sim_times s) = sim_t s \<longrightarrow> last (sim_states s) = sim_x s)"

text \<open>What holds of them after the final save.\<close>

definition history_final :: "rat \<Rightarrow> rat \<Rightarrow> sim_state \<Rightarrow> bool" where
  "history_final dt horizon s \<longleftrightarrow>
     length (sim_inputs s) = length (sim_times s) \<and>
     length (sim_states s) = length (sim_times s) \<and>
     length (sim_outputs s) = length (sim_times s) \<and>
     length (sim_event_states s) = length (sim_times s) \<and>
     sim_times s \<noteq> [] \<and> hd (sim_times s) = 0 \<and>
     sorted_wrt (<) (sim_times s) \<and>
     (\<forall>\<tau>\<in>set (sim_times s). \<tau> \<le> last (sim_times s)) \<and>
     last (sim_times s) = sim_t s \<and>
     sim_t s < horizon + dt \<and>
     last (sim_states s) = sim_x s"

text \<open>
  The reference the final state is compared with, written from the specification's
  words: \<^verbatim>\<open>next_state\<close> called \<open>k\<close> times from a starting state, the \<open>i\<close>-th call
  at time \<open>i * dt\<close> with the input the loading function gives for that time.
\<close>

fun repeat_next_state :: "model \<Rightarrow> (rat \<Rightarrow> vec) \<Rightarrow> rat \<Rightarrow> nat \<Rightarrow> vec \<Rightarrow> vec" where
  "repeat_next_state m future_loading dt 0 x = x"
| "repeat_next_state m future_loading dt (Suc k) x =
     (let t = of_nat (Suc k) * dt
      in next_state_eqn m t (repeat_next_state m future_loading dt k x) (future_loading t) dt)"

text \<open>
  The loop variables of a run that no threshold stops: the state is the reference
  iteration at the current time.
\<close>

definition trajectory_inv ::
  "model \<Rightarrow> (rat \<Rightarrow> vec) \<Rightarrow> rat \<Rightarrow> rat \<Rightarrow> vec \<Rightarrow> sim_state \<Rightarrow> bool" where
  "trajectory_inv m future_loading dt horizon x0 s \<longleftrightarrow>
     \<not> sim_threshold_met s \<and>
     (\<exists>k. sim_t s = of_nat k * dt \<and>
          sim_x s = repeat_next_state m future_loading dt k x0 \<and>
          of_nat k * dt < horizon + dt)"

text \<open>
  The conditions under which the validation of \<^verbatim>\<open>simulate_to_threshold\<close> rejects its
  arguments, as the code tests them: the first output lacks an output key, the loading
  function is not callable, a threshold key is no declared event, or \<^verbatim>\<open>dt\<close> or
  \<^verbatim>\<open>save_freq\<close> is not of the exact type int or float (a bool, or a number of another
  type, is rejected too) or is not positive.
\<close>

definition rejected :: "model \<Rightarrow> loading \<Rightarrow> vec \<Rightarrow> config \<Rightarrow> string list option \<Rightarrow> bool" where
  "rejected m fl fo config tk \<longleftrightarrow>
     (\<exists>key\<in>set (outputs m). key \<notin> set (map fst fo)) \<or>
     fl = NotCallable \<or>
     (\<exists>key\<in>set (key_list tk). key \<notin> set (events m)) \<or>
     \<not> type_is_int_or_float (cfg_dt config) \<or> num (cfg_dt config) \<le> 0 \<or>
     \<not> type_is_int_or_float (cfg_save_freq config) \<or> num (cfg_save_freq config) \<le> 0"

text \<open>
  The same conditions in the words of claim C9, with "non-numeric" read as "not a
  number" for \<^verbatim>\<open>dt\<close> and \<^verbatim>\<open>save_freq\<close>, as the claim reads it for \<^verbatim>\<open>time\<close>.
\<close>

definition claimed_rejected :: "model \<Rightarrow> loading \<Rightarrow> vec \<Rightarrow> config \<Rightarrow> string list option \<Rightarrow> bool" where
  "claimed_rejected m fl fo config tk \<longleftrightarrow>
     (\<exists>key\<in>set (outputs m). key \<notin> set (map fst fo)) \<or>
     fl = NotCallable \<or>
     (\<exists>key\<in>set (key_list tk). key \<notin> set (events m)) \<or>
     \<not> isinstance_Number (cfg_dt config) \<or> num (cfg_dt config) \<le> 0 \<or>
     \<not> isinstance_Number (cfg_save_freq config) \<or> num (cfg_save_freq config) \<le> 0"

section \<open>Example models and inputs\<close>

text \<open>
  The linear system of the specification's concrete scenario, with the state
  \<^verbatim>\<open>{'pos': 0}\<close> the scenario starts from: \<^verbatim>\<open>next_state\<close> adds \<^verbatim>\<open>dt * u['rate']\<close> to
  every component of the state, the output is the state and the event state is
  \<^verbatim>\<open>1 - x['pos']/100\<close> (Python's true division). \<open>getv\<close> reads a key that the
  scenario's vectors always have. The scenario's options are \<^verbatim>\<open>dt = 1\<close> and
  \<^verbatim>\<open>save_freq = 5\<close>, and its loading function is constantly \<^verbatim>\<open>{'rate': 5}\<close>.
\<close>

definition getv :: "vec \<Rightarrow> string \<Rightarrow> rat" where
  "getv x k = (case map_of x k of Some v \<Rightarrow> v | None \<Rightarrow> 0)"

definition linear_model :: model where
  "linear_model =
     \<lparr> parameters = 0, inputs = [''rate''], states = [''pos''], outputs = [''pos''],
       events = [''EOL''],
       initialize_eqn = (\<lambda>u z. [(''pos'', 0)]),
       next_state_eqn = (\<lambda>t x u dt. map (\<lambda>(k, v). (k, v + dt * getv u ''rate'')) x),
       output_eqn = (\<lambda>t x. x),
       event_state_eqn = Some (\<lambda>t x. [(''EOL'', 1 - getv x ''pos'' / 100)]),
       threshold_eqn = None \<rparr>"

definition constant_load :: "rat \<Rightarrow> vec" where
  "constant_load t = [(''rate'', 5)]"

definition scenario_options :: options where
  "scenario_options = \<lparr> opt_dt = Some (PyInt 1), opt_save_freq = Some (PyInt 5), opt_horizon = None,
     opt_threshold_eqn = None, opt_x = None \<rparr>"

text \<open>
  Options under which the run stops at the horizon 10, which is a save instant: the
  step is 1 and every fifth time is saved.
\<close>

definition exact_options :: options where
  "exact_options =
     \<lparr> opt_dt = Some (PyInt 1), opt_save_freq = Some (PyInt 5), opt_horizon = Some (PyInt 10),
       opt_threshold_eqn = None, opt_x = None \<rparr>"

text \<open>The saved times of a result, when it is a history.\<close>

definition saved_times :: "result option \<Rightarrow> rat list option" where
  "saved_times r = (case r of Some (calls, Inr (ts, rest)) \<Rightarrow> Some ts | _ \<Rightarrow> None)"


text \<open>
  Options that override what \<^verbatim>\<open>simulate_to\<close> puts among its defaults: a horizon, and
  a threshold equation that answers True.
\<close>

definition always_met :: "rat \<Rightarrow> vec \<Rightarrow> bool dict" where
  "always_met t x = [(''EOL'', True)]"

definition horizon_options :: options where
  "horizon_options =
     \<lparr> opt_dt = None, opt_save_freq = None, opt_horizon = Some (PyInt 1),
       opt_threshold_eqn = None, opt_x = None \<rparr>"

definition threshold_options :: options where
  "threshold_options =
     \<lparr> opt_dt = None, opt_save_freq = None, opt_horizon = None,
       opt_threshold_eqn = Some always_met, opt_x = None \<rparr>"

text \<open>
  A model with two events: \<^verbatim>\<open>B\<close> is met once the position exceeds 10, \<^verbatim>\<open>A\<close> once
  it exceeds 100. The states \<open>before_B\<close> and \<open>before_A\<close> are loop states one step before
  each event, and the \<open>after\<close> states are what one pass of the loop makes of them.
\<close>

definition two_event_model :: model where
  "two_event_model =
     \<lparr> parameters = 0, inputs = [''rate''], states = [''pos''], outputs = [''pos''],
       events = [''A'', ''B''],
       initialize_eqn = (\<lambda>u z. [(''pos'', 0)]),
       next_state_eqn = (\<lambda>t x u dt. map (\<lambda>(k, v). (k, v + dt * getv u ''rate'')) x),
       output_eqn = (\<lambda>t x. x),
       event_state_eqn =
         Some (\<lambda>t x. [(''A'', 1 - getv x ''pos'' / 100), (''B'', 1 - getv x ''pos'' / 10)]),
       threshold_eqn = None \<rparr>"

definition before_B :: sim_state where
  "before_B =
     \<lparr> sim_t = 2, sim_u = [(''rate'', 5)], sim_x = [(''pos'', 10)],
       sim_threshold_met = False, sim_next_save = 5,
       sim_times = [0], sim_inputs = [[(''rate'', 5)]], sim_states = [[(''pos'', 0)]],
       sim_outputs = [[(''pos'', 0)]], sim_event_states = [[(''A'', 1), (''B'', 1)]],
       sim_calls = [] \<rparr>"

definition before_A :: sim_state where
  "before_A = before_B \<lparr> sim_t := 20, sim_x := [(''pos'', 100)], sim_next_save := 25 \<rparr>"

definition after_B :: sim_state where
  "after_B = before_B \<lparr> sim_t := 3, sim_x := [(''pos'', 15)],
     sim_calls := [Call_future_loading_eqn 3, Call_next_state 3, Call_threshold_met_eqn 3] \<rparr>"

definition after_A :: sim_state where
  "after_A = before_A \<lparr> sim_t := 21, sim_x := [(''pos'', 105)], sim_threshold_met := True,
     sim_calls := [Call_future_loading_eqn 21, Call_next_state 21, Call_threshold_met_eqn 21] \<rparr>"

definition after_B_any :: sim_state where
  "after_B_any = after_B \<lparr> sim_threshold_met := True \<rparr>"

definition two_event_options :: options where
  "two_event_options =
     \<lparr> opt_dt = Some (PyInt 1), opt_save_freq = Some (PyInt 5), opt_horizon = None,
       opt_threshold_eqn = None, opt_x = None \<rparr>"

text \<open>
  Options with a step size that the validation rejects: 0, and \<^verbatim>\<open>True\<close>, which is a
  positive number but not of type int or float.
\<close>

definition bool_options :: options where
  "bool_options =
     \<lparr> opt_dt = Some (PyBool True), opt_save_freq = None, opt_horizon = None,
       opt_threshold_eqn = None, opt_x = None \<rparr>"

definition bad_options :: options where
  "bad_options =
     \<lparr> opt_dt = Some (PyInt 0), opt_save_freq = None, opt_horizon = None,
       opt_threshold_eqn = None, opt_x = None \<rparr>"

text \<open>
  Two models built by \<^verbatim>\<open>generate_model\<close> from the equations of the linear model, one
  after the other, with different \<^verbatim>\<open>process_noise\<close>; the store starts with the empty
  class attribute \<^verbatim>\<open>parameters = {}\<close>. \<open>instance_parameters\<close> reads an instance's
  \<^verbatim>\<open>parameters\<close> in a store. \<open>generated_model\<close> is the model the first call returns.
\<close>

definition empty_store :: store where
  "empty_store = (\<lambda>a. [])"

definition example_keys :: "string list dict" where
  "example_keys = [(''inputs'', [''rate'']), (''states'', [''pos'']), (''outputs'', [''pos''])]"

definition first_generated :: "store \<times> (error + model)" where
  "first_generated =
     generate_model example_keys (Callable (initialize_eqn linear_model))
       (Callable (next_state_eqn linear_model)) (Callable (output_eqn linear_model)) Falsy Falsy
       [(''process_noise'', Num (1 / 10))] empty_store"

definition second_generated :: "store \<times> (error + model)" where
  "second_generated =
     generate_model example_keys (Callable (initialize_eqn linear_model))
       (Callable (next_state_eqn linear_model)) (Callable (output_eqn linear_model)) Falsy Falsy
       [(''process_noise'', Num (1 / 2))] (fst first_generated)"

definition instance_parameters :: "store \<Rightarrow> error + model \<Rightarrow> pvalue dict option" where
  "instance_parameters h r = (case r of Inl e \<Rightarrow> None | Inr m \<Rightarrow> Some (h (parameters m)))"

definition example_class :: pyclass where
  "example_class =
     \<lparr> cls_parameters = PrognosticsModel_parameters, cls_inputs = Some [''rate''],
       cls_states = Some [''pos''], cls_outputs = Some [''pos''] \<rparr>"

definition generated_model :: model where
  "generated_model =
     \<lparr> parameters = PrognosticsModel_parameters, inputs = [''rate''], states = [''pos''],
       outputs = [''pos''], events = [],
       initialize_eqn = initialize_eqn linear_model,
       next_state_eqn = next_state_eqn linear_model,
       output_eqn = output_eqn linear_model,
       event_state_eqn = None, threshold_eqn = None \<rparr>"

section \<open>Lemmas on the loop\<close>

lemma loop_body_time:
  "loop_body ns out es fl eqn tk dt sf s = Inr s' \<Longrightarrow> sim_t s' = sim_t s + dt"
  by (auto simp: loop_body_def Let_def split: sum.splits if_splits)

lemma steps_left_decrease:
  fixes t dt hz :: rat
  assumes "0 < dt" "t < hz"
  shows "nat \<lceil>(hz - (t + dt)) / dt\<rceil> < nat \<lceil>(hz - t) / dt\<rceil>"
proof -
  have "(hz - (t + dt)) / dt = (hz - t) / dt - 1"
    using assms by (simp add: field_simps)
  then have "\<lceil>(hz - (t + dt)) / dt\<rceil> = \<lceil>(hz - t) / dt\<rceil> - 1"
    by simp
  moreover have "0 < (hz - t) / dt" using assms by simp
  then have "0 < \<lceil>(hz - t) / dt\<rceil>" by (simp add: ceiling_less_iff)
  ultimately show ?thesis by simp
qed

lemma simulate_loop_invariant:
  assumes dt: "0 < dt"
    and pres: "\<And>s s'. I s \<Longrightarrow> \<not> sim_threshold_met s \<Longrightarrow> sim_t s < hz \<Longrightarrow>
                 loop_body ns out es fl eqn tk dt sf s = Inr s' \<Longrightarrow> I s'"
    and init: "I s"
  shows "\<exists>r. simulate_loop ns out es fl eqn tk dt sf hz s = Some r \<and>
             (case r of Inl ce \<Rightarrow> True
                      | Inr s' \<Rightarrow> I s' \<and> (sim_threshold_met s' \<or> \<not> sim_t s' < hz))"
  using init
proof (induction "nat \<lceil>(hz - sim_t s) / dt\<rceil>" arbitrary: s rule: less_induct)
  case less
  show ?case
  proof (cases "\<not> sim_threshold_met s \<and> sim_t s < hz")
    case False
    then show ?thesis using less.prems
      by (subst simulate_loop.simps) auto
  next
    case True
    show ?thesis
    proof (cases "loop_body ns out es fl eqn tk dt sf s")
      case (Inl ce)
      then show ?thesis using True
        by (subst simulate_loop.simps) simp
    next
      case (Inr s')
      have t': "sim_t s' = sim_t s + dt" using Inr by (rule loop_body_time)
      have "I s'" using pres less.prems True Inr by blast
      moreover have "nat \<lceil>(hz - sim_t s') / dt\<rceil> < nat \<lceil>(hz - sim_t s) / dt\<rceil>"
        unfolding t' using dt True by (intro steps_left_decrease) auto
      ultimately have "\<exists>r. simulate_loop ns out es fl eqn tk dt sf hz s' = Some r \<and>
             (case r of Inl ce \<Rightarrow> True
                      | Inr s'' \<Rightarrow> I s'' \<and> (sim_threshold_met s'' \<or> \<not> sim_t s'' < hz))"
        using less.hyps by blast
      then show ?thesis using True Inr
        by (subst simulate_loop.simps) simp
    qed
  qed
qed


lemma history_inv_initial:
  "0 < dt \<Longrightarrow> 0 < hz \<Longrightarrow> history_inv dt hz (initial_state m fl fo x0 sf)"
  by (simp add: history_inv_def initial_state_def Let_def)

lemma history_inv_loop_body:
  assumes "history_inv dt hz s" "0 < dt" "sim_t s < hz"
    and "loop_body ns out es fl eqn tk dt sf s = Inr s'"
  shows "history_inv dt hz s'"
proof -
  from assms(4) obtain met where
    s': "s' = (if sim_t s + dt \<ge> sim_next_save s then
               s\<lparr> sim_t := sim_t s + dt, sim_u := fl (sim_t s + dt),
                  sim_x := ns (sim_t s + dt) (sim_x s) (fl (sim_t s + dt)) dt,
                  sim_threshold_met := met,
                  sim_next_save := sim_next_save s + sf,
                  sim_times := sim_times s @ [sim_t s + dt],
                  sim_inputs := sim_inputs s @ [fl (sim_t s + dt)],
                  sim_states := sim_states s @
                    [ns (sim_t s + dt) (sim_x s) (fl (sim_t s + dt)) dt],
                  sim_outputs := sim_outputs s @
                    [out (sim_t s + dt)
                       (ns (sim_t s + dt) (sim_x s) (fl (sim_t s + dt)) dt)],
                  sim_event_states := sim_event_states s @
                    [es (sim_t s + dt)
                       (ns (sim_t s + dt) (sim_x s) (fl (sim_t s + dt)) dt)],
                  sim_calls := sim_calls s @
                    [Call_future_loading_eqn (sim_t s + dt), Call_next_state (sim_t s + dt),
                     Call_threshold_met_eqn (sim_t s + dt), Call_output (sim_t s + dt),
                     Call_event_state (sim_t s + dt)] \<rparr>
             else
               s\<lparr> sim_t := sim_t s + dt, sim_u := fl (sim_t s + dt),
                  sim_x := ns (sim_t s + dt) (sim_x s) (fl (sim_t s + dt)) dt,
                  sim_threshold_met := met,
                  sim_calls := sim_calls s @
                    [Call_future_loading_eqn (sim_t s + dt), Call_next_state (sim_t s + dt),
                     Call_threshold_met_eqn (sim_t s + dt)] \<rparr>)"
    by (auto simp: loop_body_def Let_def split: sum.splits if_splits)
  have le: "\<forall>\<tau>\<in>set (sim_times s). \<tau> \<le> sim_t s" and ne: "sim_times s \<noteq> []"
    using assms(1) by (simp_all add: history_inv_def)
  then have lt: "\<forall>\<tau>\<in>set (sim_times s). \<tau> < sim_t s + dt"
    using assms(2) by fastforce
  have "last (sim_times s) \<in> set (sim_times s)" using ne by simp
  then have last_ne: "last (sim_times s) \<noteq> sim_t s + dt" using lt by fastforce
  show ?thesis
  proof (cases "sim_t s + dt \<ge> sim_next_save s")
    case True
    then show ?thesis using assms(1-3) lt ne
      by (simp add: s' history_inv_def sorted_wrt_append less_imp_le)
  next
    case False
    then show ?thesis using assms(1-3) lt ne last_ne
      by (auto simp add: s' history_inv_def less_imp_le)
  qed
qed


lemma sorted_wrt_less_last:
  fixes ts :: "rat list"
  shows "sorted_wrt (<) ts \<Longrightarrow> x \<in> set ts \<Longrightarrow> x \<le> last ts"
proof (induction ts)
  case Nil
  then show ?case by simp
next
  case (Cons a ts)
  show ?case
  proof (cases "ts = []")
    case True
    then show ?thesis using Cons.prems by simp
  next
    case False
    then have "last ts \<in> set ts" by simp
    then have "a \<le> last ts" using Cons.prems(1) by (simp add: less_imp_le)
    then show ?thesis using Cons False by auto
  qed
qed

lemma sorted_wrt_less_count:
  fixes ts :: "rat list"
  shows "sorted_wrt (<) ts \<Longrightarrow> x \<in> set ts \<Longrightarrow> count_list ts x = 1"
  by (induction ts) auto

lemma history_final_save_final:
  assumes "history_inv dt hz s"
  shows "history_final dt hz (save_final m s)"
proof (cases "last (sim_times s) = sim_t s")
  case True
  then show ?thesis using assms
    by (simp add: save_final_def history_inv_def history_final_def)
next
  case False
  have "last (sim_times s) \<in> set (sim_times s)"
    using assms by (simp add: history_inv_def)
  moreover have "\<forall>\<tau>\<in>set (sim_times s). \<tau> \<le> sim_t s"
    using assms by (simp add: history_inv_def)
  ultimately have "last (sim_times s) \<le> sim_t s" by blast
  then have "last (sim_times s) < sim_t s"
    using False by simp
  moreover have "\<forall>\<tau>\<in>set (sim_times s). \<tau> \<le> last (sim_times s)"
    using assms by (simp add: history_inv_def sorted_wrt_less_last)
  ultimately have "\<forall>\<tau>\<in>set (sim_times s). \<tau> < sim_t s"
    by fastforce
  then show ?thesis using assms False
    by (simp add: save_final_def history_inv_def history_final_def sorted_wrt_append less_imp_le)
qed

lemma run_history_final:
  assumes "0 < dt" "isinstance_Number horizon" "0 < num horizon"
  shows "\<exists>r. run m fl fo tk eqn x0 dt sf horizon = Some r \<and>
           (case r of Inl ce \<Rightarrow> True | Inr s \<Rightarrow> history_final dt (num horizon) s)"
proof -
  let ?s0 = "initial_state m fl fo x0 sf"
  have "\<exists>r. simulate_loop (next_state_eqn m) (output_eqn m) (event_state m) fl eqn tk dt sf (num horizon) ?s0 = Some r \<and>
          (case r of Inl ce \<Rightarrow> True
                   | Inr s' \<Rightarrow> history_inv dt (num horizon) s' \<and>
                       (sim_threshold_met s' \<or> \<not> sim_t s' < num horizon))"
    using assms(1)
  proof (rule simulate_loop_invariant)
    show "history_inv dt (num horizon) ?s0"
      using assms by (simp add: history_inv_initial)
  next
    fix s s'
    assume "history_inv dt (num horizon) s" "sim_t s < num horizon"
      "loop_body (next_state_eqn m) (output_eqn m) (event_state m) fl eqn tk dt sf s = Inr s'"
    then show "history_inv dt (num horizon) s'"
      using assms(1) history_inv_loop_body by blast
  qed
  then obtain r where r: "simulate_loop (next_state_eqn m) (output_eqn m) (event_state m) fl eqn tk dt sf (num horizon) ?s0 = Some r"
    and inv: "case r of Inl ce \<Rightarrow> True
              | Inr s' \<Rightarrow> history_inv dt (num horizon) s' \<and>
                  (sim_threshold_met s' \<or> \<not> sim_t s' < num horizon)"
    by blast
  show ?thesis
    using assms(2) r inv
    by (cases r) (simp_all add: run_def Let_def history_final_save_final)
qed

lemma simulate_loop_total:
  assumes dt: "0 < dt"
    and pres: "\<And>s. I s \<Longrightarrow> \<not> sim_threshold_met s \<Longrightarrow> sim_t s < hz \<Longrightarrow>
                 \<exists>s'. loop_body ns out es fl eqn tk dt sf s = Inr s' \<and> I s'"
    and init: "I s"
  shows "\<exists>s'. simulate_loop ns out es fl eqn tk dt sf hz s = Some (Inr s') \<and>
              I s' \<and> (sim_threshold_met s' \<or> \<not> sim_t s' < hz)"
proof -
  show ?thesis
    using init
  proof (induction "nat \<lceil>(hz - sim_t s) / dt\<rceil>" arbitrary: s rule: less_induct)
    case less
    show ?case
    proof (cases "\<not> sim_threshold_met s \<and> sim_t s < hz")
      case False
      then show ?thesis using less.prems
        by (subst simulate_loop.simps) auto
    next
      case True
      then obtain s' where body: "loop_body ns out es fl eqn tk dt sf s = Inr s'" and "I s'"
        using pres less.prems by blast
      have t': "sim_t s' = sim_t s + dt" using body by (rule loop_body_time)
      have "nat \<lceil>(hz - sim_t s') / dt\<rceil> < nat \<lceil>(hz - sim_t s) / dt\<rceil>"
        unfolding t' using dt True by (intro steps_left_decrease) auto
      then have "\<exists>s''. simulate_loop ns out es fl eqn tk dt sf hz s' = Some (Inr s'') \<and>
              I s'' \<and> (sim_threshold_met s'' \<or> \<not> sim_t s'' < hz)"
        using less.hyps \<open>I s'\<close> by blast
      then show ?thesis using True body
        by (subst simulate_loop.simps) simp
    qed
  qed
qed

lemma trajectory_inv_loop_body:
  assumes "trajectory_inv m fl dt hz x0 s" "sim_t s < hz"
    and nothr: "\<And>t x. check_thresholds tk (eqn t x) = Inr False"
  shows "\<exists>s'. loop_body (next_state_eqn m) out es fl eqn tk dt sf s = Inr s' \<and> trajectory_inv m fl dt hz x0 s'"
proof -
  from assms(1) obtain k where k: "sim_t s = of_nat k * dt"
      "sim_x s = repeat_next_state m fl dt k x0" and met: "\<not> sim_threshold_met s"
    by (auto simp: trajectory_inv_def)
  have t': "sim_t s + dt = of_nat (Suc k) * dt"
    using k(1) by (simp add: algebra_simps)
  have x': "next_state_eqn m (sim_t s + dt) (sim_x s) (fl (sim_t s + dt)) dt =
            repeat_next_state m fl dt (Suc k) x0"
    using k t' by (simp add: Let_def)
  have "of_nat (Suc k) * dt < hz + dt"
    using assms(2) t' by (metis add_less_cancel_right)
  then show ?thesis
    using nothr t' x'
    by (auto simp: loop_body_def Let_def trajectory_inv_def simp del: repeat_next_state.simps of_nat_Suc
        intro!: exI[of _ "Suc k"])
qed


lemma steps_to_horizon:
  fixes dt hz :: rat
  assumes "0 < dt" "\<not> of_nat k * dt < hz" "of_nat k * dt < hz + dt"
  shows "int k = \<lceil>hz / dt\<rceil>"
proof -
  have "hz / dt \<le> of_int (int k)"
    using assms(1,2) by (simp add: field_simps)
  moreover have "of_int (int k) - 1 < hz / dt"
    using assms(1,3) by (simp add: field_simps)
  ultimately have "\<lceil>hz / dt\<rceil> = int k"
    by (simp add: ceiling_unique)
  then show ?thesis by simp
qed

lemma save_final_unchanged:
  "sim_t (save_final m s) = sim_t s" "sim_x (save_final m s) = sim_x s"
  by (simp_all add: save_final_def)

lemma run_fixed_horizon:
  assumes dt: "0 < dt" and hz: "isinstance_Number horizon" "0 < num horizon"
    and nothr: "\<And>t x. check_thresholds tk (eqn t x) = Inr False"
  shows "\<exists>s. run m fl fo tk eqn cx dt sf horizon = Some (Inr s) \<and>
           history_final dt (num horizon) s \<and>
           sim_t s = of_int \<lceil>num horizon / dt\<rceil> * dt \<and>
           sim_x s = repeat_next_state m fl dt (nat \<lceil>num horizon / dt\<rceil>)
                       (sim_x (initial_state m fl fo cx sf))"
proof -
  let ?s0 = "initial_state m fl fo cx sf"
  let ?x0 = "sim_x ?s0"
  let ?I = "\<lambda>s. history_inv dt (num horizon) s \<and> trajectory_inv m fl dt (num horizon) ?x0 s"
  have "\<exists>s'. simulate_loop (next_state_eqn m) (output_eqn m) (event_state m) fl eqn tk dt sf (num horizon) ?s0 = Some (Inr s') \<and>
              ?I s' \<and> (sim_threshold_met s' \<or> \<not> sim_t s' < num horizon)"
    using dt
  proof (rule simulate_loop_total)
    have "trajectory_inv m fl dt (num horizon) ?x0 ?s0"
      using dt hz(2) by (auto simp: trajectory_inv_def initial_state_def Let_def intro!: exI[of _ 0])
    then show "?I ?s0"
      using dt hz(2) by (simp add: history_inv_initial)
  next
    fix s
    assume I: "?I s" and lt: "sim_t s < num horizon"
    then obtain s' where s': "loop_body (next_state_eqn m) (output_eqn m) (event_state m) fl eqn tk dt sf s = Inr s'"
        "trajectory_inv m fl dt (num horizon) ?x0 s'"
      using trajectory_inv_loop_body nothr by blast
    moreover have "history_inv dt (num horizon) s'"
      using I lt dt s'(1) history_inv_loop_body by blast
    ultimately show "\<exists>s'. loop_body (next_state_eqn m) (output_eqn m) (event_state m) fl eqn tk dt sf s = Inr s' \<and> ?I s'"
      by blast
  qed
  then obtain s' where loop: "simulate_loop (next_state_eqn m) (output_eqn m) (event_state m) fl eqn tk dt sf (num horizon) ?s0 = Some (Inr s')"
    and hist: "history_inv dt (num horizon) s'"
    and traj: "trajectory_inv m fl dt (num horizon) ?x0 s'"
    and stop: "sim_threshold_met s' \<or> \<not> sim_t s' < num horizon"
    by blast
  from traj obtain k where k: "sim_t s' = of_nat k * dt"
      "sim_x s' = repeat_next_state m fl dt k ?x0" "of_nat k * dt < num horizon + dt"
    and "\<not> sim_threshold_met s'"
    by (auto simp: trajectory_inv_def)
  then have "\<not> of_nat k * dt < num horizon"
    using stop by simp
  then have kc: "int k = \<lceil>num horizon / dt\<rceil>"
    using dt k(3) steps_to_horizon by blast
  then have kn: "k = nat \<lceil>num horizon / dt\<rceil>" by simp
  have "of_int \<lceil>num horizon / dt\<rceil> = (of_nat k :: rat)"
    using kc by (metis of_int_of_nat_eq)
  then have "sim_t s' = of_int \<lceil>num horizon / dt\<rceil> * dt"
    using k(1) by simp
  then show ?thesis
    using loop hist hz(1) k(2) kn
    by (simp add: run_def Let_def history_final_save_final save_final_unchanged)
qed

lemma config_update_as_options:
  "config_update threshold_defaults (as_options c) = c"
  by (cases "cfg_threshold_eqn c"; cases "cfg_x c")
     (simp_all add: config_update_def as_options_def threshold_defaults_def)

lemma check_thresholds_override:
  "check_thresholds None (override_threshold t x) = Inr False"
  by (simp add: check_thresholds_def override_threshold_def any_def)

lemma simulate_to_fixed_horizon:
  assumes time: "isinstance_Number time" "0 < num time"
    and opts: "opt_horizon opts = None" "opt_threshold_eqn opts = None"
    and cfg: "config = config_update (to_defaults time) opts"
    and valid: "\<not> config_invalid (cfg_dt config) (cfg_save_freq config)"
    and covers: "list_all (\<lambda>key. key \<in> set (map fst fo)) (outputs m)"
  shows "\<exists>s. simulate_to m time (Callable f) fo opts = Some (returned s) \<and>
           history_final (num (cfg_dt config)) (num time) s \<and>
           sim_t s = of_int \<lceil>num time / num (cfg_dt config)\<rceil> * num (cfg_dt config) \<and>
           sim_x s = repeat_next_state m f (num (cfg_dt config))
                       (nat \<lceil>num time / num (cfg_dt config)\<rceil>)
                       (sim_x (initial_state m f fo (opt_x opts) (num (cfg_save_freq config))))"
proof -
  have hz: "cfg_horizon config = time" and thr: "cfg_threshold_eqn config = Some override_threshold"
    and cx: "cfg_x config = opt_x opts"
    using opts cfg by (simp_all add: config_update_def to_defaults_def split: option.splits)
  have dt: "0 < num (cfg_dt config)"
    using valid by (auto simp: config_invalid_def split: if_splits)
  have "\<exists>s. run m f fo None override_threshold (opt_x opts) (num (cfg_dt config))
              (num (cfg_save_freq config)) time = Some (Inr s) \<and>
           history_final (num (cfg_dt config)) (num time) s \<and>
           sim_t s = of_int \<lceil>num time / num (cfg_dt config)\<rceil> * num (cfg_dt config) \<and>
           sim_x s = repeat_next_state m f (num (cfg_dt config))
                       (nat \<lceil>num time / num (cfg_dt config)\<rceil>)
                       (sim_x (initial_state m f fo (opt_x opts) (num (cfg_save_freq config))))"
    using dt time check_thresholds_override by (rule run_fixed_horizon)
  then obtain s where
    run: "run m f fo None override_threshold (opt_x opts) (num (cfg_dt config))
              (num (cfg_save_freq config)) time = Some (Inr s)"
    and rest: "history_final (num (cfg_dt config)) (num time) s"
      "sim_t s = of_int \<lceil>num time / num (cfg_dt config)\<rceil> * num (cfg_dt config)"
      "sim_x s = repeat_next_state m f (num (cfg_dt config))
                       (nat \<lceil>num time / num (cfg_dt config)\<rceil>)
                       (sim_x (initial_state m f fo (opt_x opts) (num (cfg_save_freq config))))"
    by blast
  have "simulate_to m time (Callable f) fo opts =
        simulate_to_threshold m (Callable f) fo (as_options config) None"
    using time valid cfg by (simp add: simulate_to_def Let_def)
  also have "\<dots> = Some (returned s)"
    using covers valid run hz thr cx
    by (simp add: simulate_to_threshold_def config_update_as_options Let_def
        resolve_threshold_eqn_def)
  finally show ?thesis using rest by blast
qed

lemma run_same_equations:
  assumes "initialize_eqn m' = initialize_eqn m" "next_state_eqn m' = next_state_eqn m"
    and "output_eqn m' = output_eqn m" "event_state_eqn m' = event_state_eqn m"
  shows "run m' fl fo tk eqn cx dt sf hz = run m fl fo tk eqn cx dt sf hz"
proof -
  have es: "event_state m' = event_state m"
    using assms(4) by (intro ext) (simp add: event_state_def)
  have "save_final m' = save_final m"
    using assms(3) es by (intro ext) (simp add: save_final_def)
  moreover have "initial_state m' fl fo cx sf = initial_state m fl fo cx sf"
    using assms(1,3) es by (cases cx) (simp_all add: initial_state_def Let_def)
  ultimately show ?thesis
    using assms(2,3) es by (simp add: run_def Let_def)
qed

lemma simulate_to_model_events:
  assumes "opt_threshold_eqn opts = None"
  shows "simulate_to (m\<lparr>events := evs, threshold_eqn := g\<rparr>) time fl fo opts =
         simulate_to m time fl fo opts"
proof -
  let ?m' = "m\<lparr>events := evs, threshold_eqn := g\<rparr>"
  have thr: "cfg_threshold_eqn (config_update (to_defaults time) opts) = Some override_threshold"
    using assms by (simp add: config_update_def to_defaults_def)
  have run: "\<And>f tk eqn cx dt sf hz. run ?m' f fo tk eqn cx dt sf hz = run m f fo tk eqn cx dt sf hz"
    by (rule run_same_equations) simp_all
  show ?thesis
    using thr
    by (cases fl)
       (simp_all add: simulate_to_def simulate_to_threshold_def Let_def config_update_as_options
          resolve_threshold_eqn_def run)
qed

lemma lookup_all_any:
  "lookup_all tm ks = Inr bs \<Longrightarrow> any bs = (\<exists>key\<in>set ks. map_of tm key = Some True)"
  by (induction ks arbitrary: bs) (auto simp: any_def split: option.splits sum.splits)

lemma lookup_all_error:
  "lookup_all tm ks = Inl e \<Longrightarrow> \<exists>key. e = KeyError key"
  by (induction ks) (auto split: option.splits sum.splits)

lemma check_thresholds_error:
  "check_thresholds tk tm = Inl e \<Longrightarrow> \<exists>key. e = KeyError key"
  by (auto simp: check_thresholds_def split: if_splits sum.splits dest: lookup_all_error)

lemma loop_body_error:
  "loop_body ns out es fl eqn tk dt sf s = Inl ce \<Longrightarrow> \<exists>key. snd ce = KeyError key"
  by (auto simp: loop_body_def Let_def split: sum.splits if_splits dest: check_thresholds_error)

lemma loop_body_threshold:
  "loop_body ns out es fl eqn tk dt sf s = Inr s' \<Longrightarrow>
   check_thresholds tk (eqn (sim_t s') (sim_x s')) = Inr (sim_threshold_met s')"
  by (auto simp: loop_body_def Let_def split: sum.splits if_splits)

lemma simulate_loop_error:
  assumes dt: "0 < dt"
    and "simulate_loop ns out es fl eqn tk dt sf hz s = Some (Inl ce)"
  shows "\<exists>key. snd ce = KeyError key"
  using assms(2)
proof (induction "nat \<lceil>(hz - sim_t s) / dt\<rceil>" arbitrary: s rule: less_induct)
  case less
  have go: "\<not> sim_threshold_met s \<and> sim_t s < hz"
    using less.prems by (subst (asm) simulate_loop.simps) (simp split: if_splits)
  show ?case
  proof (cases "loop_body ns out es fl eqn tk dt sf s")
    case (Inl ce')
    then have "ce' = ce"
      using less.prems go by (subst (asm) simulate_loop.simps) simp
    then show ?thesis using Inl loop_body_error by blast
  next
    case (Inr s')
    then have rec: "simulate_loop ns out es fl eqn tk dt sf hz s' = Some (Inl ce)"
      using less.prems go by (subst (asm) simulate_loop.simps) simp
    have t': "sim_t s' = sim_t s + dt" using Inr by (rule loop_body_time)
    have "nat \<lceil>(hz - sim_t s') / dt\<rceil> < nat \<lceil>(hz - sim_t s) / dt\<rceil>"
      unfolding t' using dt go by (intro steps_left_decrease) auto
    then show ?thesis using less.hyps rec by blast
  qed
qed

lemma run_error:
  assumes "0 < dt" "run m fl fo tk eqn cx dt sf hz = Some (Inl ce)"
  shows "snd ce \<noteq> ProgModelInputException"
proof (cases "isinstance_Number hz")
  case False
  then show ?thesis using assms by (auto simp: run_def Let_def)
next
  case True
  then obtain r where "simulate_loop (next_state_eqn m) (output_eqn m) (event_state m) fl eqn tk
      dt sf (num hz) (initial_state m fl fo cx sf) = Some r" and "map_sum id (save_final m) r = Inl ce"
    using assms by (auto simp: run_def Let_def)
  then show ?thesis
    using simulate_loop_error [OF assms(1)] by (cases r) fastforce+
qed

lemma truthy_key_list: "truthy tk \<longleftrightarrow> key_list tk \<noteq> []"
  by (cases tk rule: truthy.cases) simp_all

lemma config_invalid_iff:
  "config_invalid dt sf \<longleftrightarrow>
     \<not> type_is_int_or_float dt \<or> num dt \<le> 0 \<or> \<not> type_is_int_or_float sf \<or> num sf \<le> 0"
  by (simp add: config_invalid_def)

lemma simulate_to_threshold_input_error:
  "simulate_to_threshold m fl fo opts tk = Some (calls, Inl ProgModelInputException) \<longleftrightarrow>
     calls = [] \<and> rejected m fl fo (config_update threshold_defaults opts) tk"
proof (cases "rejected m fl fo (config_update threshold_defaults opts) tk")
  case True
  then have "simulate_to_threshold m fl fo opts tk = Some ([], Inl ProgModelInputException)"
    by (cases fl)
       (auto simp: rejected_def simulate_to_threshold_def truthy_key_list Let_def
          config_invalid_iff list_all_iff)
  then show ?thesis using True by auto
next
  case False
  then obtain f where f: "fl = Callable f"
    by (cases fl) (auto simp: rejected_def)
  let ?c = "config_update threshold_defaults opts"
  have dt: "0 < num (cfg_dt ?c)"
    using False by (auto simp: rejected_def)
  have "simulate_to_threshold m fl fo opts tk =
        map_option (case_sum raised returned)
          (run m f fo tk (resolve_threshold_eqn m ?c) (cfg_x ?c) (num (cfg_dt ?c))
             (num (cfg_save_freq ?c)) (cfg_horizon ?c))"
    using False f
    by (auto simp: rejected_def simulate_to_threshold_def truthy_key_list Let_def
          config_invalid_iff list_all_iff)
  then have "simulate_to_threshold m fl fo opts tk \<noteq> Some (calls, Inl ProgModelInputException)"
    using run_error [OF dt]
    by (auto simp: raised_def returned_def split: sum.splits)
  then show ?thesis using False by simp
qed

lemma simulate_to_input_error:
  "simulate_to m time fl fo opts = Some (calls, Inl ProgModelInputException) \<longleftrightarrow>
     calls = [] \<and>
     (\<not> isinstance_Number time \<or> num time \<le> 0 \<or>
      rejected m fl fo (config_update (to_defaults time) opts) None)"
proof (cases "\<not> isinstance_Number time \<or> num time \<le> 0")
  case True
  then show ?thesis by (auto simp: simulate_to_def)
next
  case time: False
  let ?c = "config_update (to_defaults time) opts"
  show ?thesis
  proof (cases "config_invalid (cfg_dt ?c) (cfg_save_freq ?c)")
    case True
    then have "rejected m fl fo ?c None"
      by (auto simp: rejected_def config_invalid_iff)
    then show ?thesis using True time by (auto simp: simulate_to_def Let_def)
  next
    case False
    then have "simulate_to m time fl fo opts = simulate_to_threshold m fl fo (as_options ?c) None"
      using time by (simp add: simulate_to_def Let_def)
    then show ?thesis
      using time by (simp add: simulate_to_threshold_input_error config_update_as_options)
  qed
qed

lemma any_values:
  "any (map snd tm) = (\<exists>key. (key, True) \<in> set tm)"
  by (induction tm) (auto simp: any_def)

lemma map_of_distinct_iff:
  "distinct (map fst tm) \<Longrightarrow> (key, v) \<in> set tm \<longleftrightarrow> map_of tm key = Some v"
  by (auto dest: map_of_SomeD)

lemma step_B_any:
  "loop_body (next_state_eqn two_event_model) (output_eqn two_event_model)
     (event_state two_event_model) constant_load (threshold_met two_event_model)
     None 1 5 before_B = Inr after_B_any"
  by code_simp

lemma thresholds_B_any:
  "threshold_met two_event_model (sim_t after_B_any) (sim_x after_B_any) =
     [(''A'', False), (''B'', True)]"
  by code_simp

lemma two_event_runs:
  "saved_times (simulate_to_threshold two_event_model (Callable constant_load) [(''pos'', 0)]
     two_event_options (Some [''A''])) = Some [0, 5, 10, 15, 20, 21]"
  "saved_times (simulate_to_threshold two_event_model (Callable constant_load) [(''pos'', 0)]
     two_event_options None) = Some [0, 3]"
  by code_simp+

lemma step_B:
  "loop_body (next_state_eqn two_event_model) (output_eqn two_event_model)
     (event_state two_event_model) constant_load (threshold_met two_event_model)
     (Some [''A'']) 1 5 before_B = Inr after_B"
  by code_simp

lemma step_A:
  "loop_body (next_state_eqn two_event_model) (output_eqn two_event_model)
     (event_state two_event_model) constant_load (threshold_met two_event_model)
     (Some [''A'']) 1 5 before_A = Inr after_A"
  by code_simp

lemma thresholds_B:
  "threshold_met two_event_model (sim_t after_B) (sim_x after_B) = [(''A'', False), (''B'', True)]"
  by code_simp

lemma thresholds_A:
  "threshold_met two_event_model (sim_t after_A) (sim_x after_A) = [(''A'', True), (''B'', True)]"
  by code_simp

lemma map_of_fold_update:
  "map_of (fold (\<lambda>key acc. AList.update key v acc) keys acc) =
   (\<lambda>k. if k \<in> set keys then Some v else map_of acc k)"
  by (induction keys arbitrary: acc) (auto simp: update_conv' fun_eq_iff)

lemma keys_fold_update:
  "set (map fst (fold (\<lambda>key acc. AList.update key v acc) keys acc)) = set keys \<union> set (map fst acc)"
proof -
  have "dom (map_of (fold (\<lambda>key acc. AList.update key v acc) keys acc)) = set keys \<union> dom (map_of acc)"
    by (auto simp: map_of_fold_update dom_def)
  then show ?thesis by (simp add: dom_map_of_conv_image_fst)
qed

lemma broadcast_lookup:
  "map_of (broadcast v keys) key = (if key \<in> set keys then Some v else None)"
  by (simp add: broadcast_def map_of_fold_update)

lemma broadcast_keys: "set (map fst (broadcast v keys)) = set keys"
  using keys_fold_update [of v keys "[]"] by (simp add: broadcast_def)

lemma missing_or_empty_iff:
  "missing_or_empty keys \<longleftrightarrow> keys = None \<or> keys = Some []"
  by (cases keys) simp_all

lemma threshold_met_same:
  assumes "event_state_eqn m' = event_state_eqn m" "threshold_eqn m' = threshold_eqn m"
  shows "threshold_met m' = threshold_met m"
proof (intro ext)
  fix t x
  have "event_state m' t x = event_state m t x"
    using assms(1) by (simp add: event_state_def)
  then show "threshold_met m' t x = threshold_met m t x"
    using assms(2) by (cases "threshold_eqn m") (simp_all add: threshold_met_def)
qed

lemma simulate_to_threshold_same:
  assumes "outputs m' = outputs m" "events m' = events m"
    and "initialize_eqn m' = initialize_eqn m" "next_state_eqn m' = next_state_eqn m"
    and "output_eqn m' = output_eqn m" "event_state_eqn m' = event_state_eqn m"
    and "threshold_eqn m' = threshold_eqn m"
  shows "simulate_to_threshold m' fl fo opts tk = simulate_to_threshold m fl fo opts tk"
proof -
  have run: "\<And>f tk eqn cx dt sf hz. run m' f fo tk eqn cx dt sf hz = run m f fo tk eqn cx dt sf hz"
    using assms(3-6) by (rule run_same_equations)
  have "resolve_threshold_eqn m' c = resolve_threshold_eqn m c" for c
    using threshold_met_same [OF assms(6,7)]
    by (cases "cfg_threshold_eqn c") (simp_all add: resolve_threshold_eqn_def)
  then show ?thesis
    using assms(1,2) run by (cases fl) (simp_all add: simulate_to_threshold_def Let_def)
qed

lemma first_generated_model:
  "generate_model example_keys (Callable (initialize_eqn linear_model))
     (Callable (next_state_eqn linear_model)) (Callable (output_eqn linear_model)) Falsy Falsy
     [(''process_noise'', Num (1 / 10))] empty_store = (fst first_generated, Inr generated_model)"
proof -
  have "snd first_generated = Inr generated_model"
    unfolding first_generated_def generated_model_def
    by (simp add: generate_model_def example_keys_def PrognosticsModel_init_def Let_def
        dict_update_def empty_store_def PrognosticsModel_parameters_def)
  then show ?thesis
    by (simp add: first_generated_def prod_eq_iff)
qed


section \<open>The claims\<close>

subsection \<open>C1: the concrete scenario\<close>

text \<open>
  The scenario of claim C1: the linear model, the constant input \<^verbatim>\<open>{'rate': 5}\<close>,
  \<^verbatim>\<open>dt = 1\<close>, \<^verbatim>\<open>save_freq = 5\<close>, the default threshold. The claim's saved times
  \<open>[0, 5, 10, 15, 20]\<close> are not what the run returns: at \<open>t = 20\<close> the position is 100
  and the event state is exactly 0, which the default threshold \<^verbatim>\<open>event_state < 0\<close>
  does not count as met.
\<close>

theorem C1_counterexample:
  "saved_times (simulate_to_threshold linear_model (Callable constant_load) [(''pos'', 0)]
     scenario_options None) \<noteq> Some [0, 5, 10, 15, 20]"
  by code_simp

text \<open>
  C1, as amended: in the scenario the run goes one step further, to \<open>t = 21\<close>, where the
  event state is negative for the first time (\<open>-1/20\<close>, after \<open>0\<close> at \<open>t = 20\<close>); the
  saved times are \<open>[0, 5, 10, 15, 20, 21]\<close>, the last one being the final point. The
  theorem gives the whole returned history: times, inputs, states, outputs and event
  states.
\<close>

theorem C1_scenario_history:
  "map_option snd (simulate_to_threshold linear_model (Callable constant_load) [(''pos'', 0)]
     scenario_options None) =
   Some (Inr ([0, 5, 10, 15, 20, 21],
     [[(''rate'', 5)], [(''rate'', 5)], [(''rate'', 5)], [(''rate'', 5)], [(''rate'', 5)],
      [(''rate'', 5)]],
     [[(''pos'', 0)], [(''pos'', 25)], [(''pos'', 50)], [(''pos'', 75)], [(''pos'', 100)],
      [(''pos'', 105)]],
     [[(''pos'', 0)], [(''pos'', 25)], [(''pos'', 50)], [(''pos'', 75)], [(''pos'', 100)],
      [(''pos'', 105)]],
     [[(''EOL'', 1)], [(''EOL'', 3 / 4)], [(''EOL'', 1 / 2)], [(''EOL'', 1 / 4)], [(''EOL'', 0)],
      [(''EOL'', - (1 / 20))]]))"
  by code_simp

subsection \<open>C2: the shape of the returned history\<close>

text \<open>
  C2: with \<^verbatim>\<open>dt\<close> and \<^verbatim>\<open>save_freq\<close> of type int or float and positive, and a
  horizon that is a positive number, \<^verbatim>\<open>simulate_to_threshold\<close> returns; and when it
  returns a history, the five sequences have one length, the times start at 0 and
  increase strictly, the last time is the greatest and at most the horizon plus one
  \<^verbatim>\<open>dt\<close>, and the last time is the final simulation time of the run and occurs once.
\<close>

theorem C2_history_shape:
  assumes cfg: "config = config_update threshold_defaults opts"
    and dt: "type_is_int_or_float (cfg_dt config)" "0 < num (cfg_dt config)"
    and sf: "type_is_int_or_float (cfg_save_freq config)" "0 < num (cfg_save_freq config)"
    and hz: "isinstance_Number (cfg_horizon config)" "0 < num (cfg_horizon config)"
  shows "\<exists>calls r. simulate_to_threshold m fl fo opts tk = Some (calls, r) \<and>
      (\<forall>ts us xs zs es. r = Inr (ts, us, xs, zs, es) \<longrightarrow>
         length us = length ts \<and> length xs = length ts \<and>
         length zs = length ts \<and> length es = length ts \<and>
         ts \<noteq> [] \<and> hd ts = 0 \<and> sorted_wrt (<) ts \<and>
         (\<forall>\<tau>\<in>set ts. \<tau> \<le> last ts) \<and>
         last ts \<le> num (cfg_horizon config) + num (cfg_dt config) \<and>
         count_list ts (last ts) = 1 \<and>
         (\<exists>f s. fl = Callable f \<and>
            run m f fo tk (resolve_threshold_eqn m config) (cfg_x config)
              (num (cfg_dt config)) (num (cfg_save_freq config)) (cfg_horizon config)
              = Some (Inr s) \<and>
            sim_times s = ts \<and> sim_t s = last ts))"
proof (cases fl)
  case NotCallable
  then show ?thesis by (simp add: simulate_to_threshold_def)
next
  case (Callable f)
  let ?run = "run m f fo tk (resolve_threshold_eqn m config) (cfg_x config)
              (num (cfg_dt config)) (num (cfg_save_freq config)) (cfg_horizon config)"
  obtain r where r: "?run = Some r"
    and fin: "case r of Inl ce \<Rightarrow> True
              | Inr s \<Rightarrow> history_final (num (cfg_dt config)) (num (cfg_horizon config)) s"
    using run_history_final [OF dt(2) hz] by blast
  have valid: "\<not> config_invalid (cfg_dt config) (cfg_save_freq config)"
    using dt sf by (simp add: config_invalid_def)
  show ?thesis
  proof (cases "\<not> list_all (\<lambda>key. key \<in> set (map fst fo)) (outputs m) \<or>
                (truthy tk \<and> \<not> list_all (\<lambda>key. key \<in> set (events m)) (key_list tk))")
    case True
    then show ?thesis using Callable by (auto simp: simulate_to_threshold_def)
  next
    case False
    then have sim: "simulate_to_threshold m fl fo opts tk = map_option (case_sum raised returned) ?run"
      using Callable valid cfg by (auto simp: simulate_to_threshold_def Let_def)
    show ?thesis
    proof (cases r)
      case (Inl ce)
      then show ?thesis using sim r by (simp add: raised_def)
    next
      case (Inr s)
      then have hf: "history_final (num (cfg_dt config)) (num (cfg_horizon config)) s"
        using fin by simp
      then have ne: "sim_times s \<noteq> []" and "sorted_wrt (<) (sim_times s)"
        by (simp_all add: history_final_def)
      moreover have "last (sim_times s) \<in> set (sim_times s)"
        using ne by simp
      ultimately have "count_list (sim_times s) (last (sim_times s)) = 1"
        using sorted_wrt_less_count by blast
      then show ?thesis using sim r Inr hf Callable
        by (auto simp add: returned_def history_final_def)
    qed
  qed
qed

theorem C2_history_shape_witness:
  "type_is_int_or_float (cfg_dt (config_update threshold_defaults exact_options)) \<and>
   0 < num (cfg_dt (config_update threshold_defaults exact_options)) \<and>
   type_is_int_or_float (cfg_save_freq (config_update threshold_defaults exact_options)) \<and>
   0 < num (cfg_save_freq (config_update threshold_defaults exact_options)) \<and>
   isinstance_Number (cfg_horizon (config_update threshold_defaults exact_options)) \<and>
   0 < num (cfg_horizon (config_update threshold_defaults exact_options)) \<and>
   (\<exists>calls ts us xs zs es.
      simulate_to_threshold linear_model (Callable constant_load) [(''pos'', 0)]
        exact_options None = Some (calls, Inr (ts, us, xs, zs, es)) \<and>
      ts = [0, 5, 10] \<and>
      length us = length ts \<and> length xs = length ts \<and>
      length zs = length ts \<and> length es = length ts \<and>
      sorted_wrt (<) ts \<and> count_list ts (last ts) = 1)"
proof -
  let ?c = "config_update threshold_defaults exact_options"
  let ?sim = "simulate_to_threshold linear_model (Callable constant_load) [(''pos'', 0)]
        exact_options None"
  have h: "type_is_int_or_float (cfg_dt ?c)" "0 < num (cfg_dt ?c)"
    "type_is_int_or_float (cfg_save_freq ?c)" "0 < num (cfg_save_freq ?c)"
    "isinstance_Number (cfg_horizon ?c)" "0 < num (cfg_horizon ?c)"
    by (simp_all add: config_update_def threshold_defaults_def exact_options_def)
  have "saved_times ?sim = Some [0, 5, 10]"
    by code_simp
  then obtain calls us xs zs es where
    sim: "?sim = Some (calls, Inr ([0, 5, 10], us, xs, zs, es))"
    by (auto simp: saved_times_def split: option.splits sum.splits prod.splits)
  from C2_history_shape [OF refl h, of linear_model "Callable constant_load"
      "[(''pos'', 0)]" None] sim
  have "length us = length [0, 5, 10 :: rat] \<and>
        length xs = length [0, 5, 10 :: rat] \<and>
        length zs = length [0, 5, 10 :: rat] \<and>
        length es = length [0, 5, 10 :: rat] \<and>
        sorted_wrt (<) [0, 5, 10 :: rat] \<and>
        count_list [0, 5, 10 :: rat] (last [0, 5, 10]) = 1"
    by auto
  then show ?thesis using h sim by simp
qed

subsection \<open>C3: the termination predicate\<close>

text \<open>
  C3: after a pass of the loop, the flag that ends the run is, when threshold keys are
  given (a non-empty list), whether any of the named events is true in the mapping of
  the threshold equation, and otherwise whether any value of the mapping is true, which
  is any declared event when the mapping's keys are the declared events. The loop goes
  on from the state the pass produced; it returns that state as soon as the flag is
  true, and makes another pass when the flag is false and the horizon is not reached.
  An empty list of keys counts as not given.
\<close>

theorem C3_termination_predicate:
  assumes body: "loop_body ns out es fl eqn tk dt sf s = Inr s'"
  shows
    "(\<not> sim_threshold_met s \<and> sim_t s < hz \<longrightarrow>
        simulate_loop ns out es fl eqn tk dt sf hz s = simulate_loop ns out es fl eqn tk dt sf hz s') \<and>
     (sim_threshold_met s' \<longrightarrow> simulate_loop ns out es fl eqn tk dt sf hz s' = Some (Inr s')) \<and>
     (\<not> sim_threshold_met s' \<and> sim_t s' < hz \<longrightarrow>
        simulate_loop ns out es fl eqn tk dt sf hz s' =
          (case loop_body ns out es fl eqn tk dt sf s' of
             Inl e \<Rightarrow> Some (Inl e)
           | Inr s'' \<Rightarrow> simulate_loop ns out es fl eqn tk dt sf hz s'')) \<and>
     (truthy tk \<longrightarrow>
        sim_threshold_met s' =
          (\<exists>key\<in>set (key_list tk). map_of (eqn (sim_t s') (sim_x s')) key = Some True)) \<and>
     (\<not> truthy tk \<longrightarrow>
        sim_threshold_met s' = (\<exists>key. (key, True) \<in> set (eqn (sim_t s') (sim_x s')))) \<and>
     (\<not> truthy tk \<and> distinct (map fst (eqn (sim_t s') (sim_x s'))) \<and>
      set (map fst (eqn (sim_t s') (sim_x s'))) = set (events m) \<longrightarrow>
        sim_threshold_met s' =
          (\<exists>key\<in>set (events m). map_of (eqn (sim_t s') (sim_x s')) key = Some True))"
proof -
  let ?tm = "eqn (sim_t s') (sim_x s')"
  have chk: "check_thresholds tk ?tm = Inr (sim_threshold_met s')"
    using body by (rule loop_body_threshold)
  have step: "\<not> sim_threshold_met s \<and> sim_t s < hz \<longrightarrow>
        simulate_loop ns out es fl eqn tk dt sf hz s = simulate_loop ns out es fl eqn tk dt sf hz s'"
    using body by (subst simulate_loop.simps) simp
  have stop: "sim_threshold_met s' \<longrightarrow> simulate_loop ns out es fl eqn tk dt sf hz s' = Some (Inr s')"
    by (subst simulate_loop.simps) simp
  have go: "\<not> sim_threshold_met s' \<and> sim_t s' < hz \<longrightarrow>
        simulate_loop ns out es fl eqn tk dt sf hz s' =
          (case loop_body ns out es fl eqn tk dt sf s' of
             Inl e \<Rightarrow> Some (Inl e)
           | Inr s'' \<Rightarrow> simulate_loop ns out es fl eqn tk dt sf hz s'')"
    by (subst simulate_loop.simps) simp
  have given: "truthy tk \<longrightarrow>
        sim_threshold_met s' = (\<exists>key\<in>set (key_list tk). map_of ?tm key = Some True)"
    using chk by (auto simp: check_thresholds_def split: sum.splits dest: lookup_all_any)
  have not_given: "\<not> truthy tk \<longrightarrow> sim_threshold_met s' = (\<exists>key. (key, True) \<in> set ?tm)"
    using chk by (auto simp: check_thresholds_def any_values)
  have declared: "\<not> truthy tk \<and> distinct (map fst ?tm) \<and> set (map fst ?tm) = set (events m) \<longrightarrow>
        sim_threshold_met s' = (\<exists>key\<in>set (events m). map_of ?tm key = Some True)"
  proof (intro impI, elim conjE)
    assume nt: "\<not> truthy tk" and d: "distinct (map fst ?tm)"
      and keys: "set (map fst ?tm) = set (events m)"
    have "(\<exists>key. (key, True) \<in> set ?tm) = (\<exists>key\<in>set (events m). map_of ?tm key = Some True)"
    proof
      assume "\<exists>key. (key, True) \<in> set ?tm"
      then obtain key where k: "(key, True) \<in> set ?tm" by blast
      then have "key \<in> set (map fst ?tm)" by force
      moreover have "map_of ?tm key = Some True" using k d by simp
      ultimately show "\<exists>key\<in>set (events m). map_of ?tm key = Some True"
        using keys by blast
    next
      assume "\<exists>key\<in>set (events m). map_of ?tm key = Some True"
      then show "\<exists>key. (key, True) \<in> set ?tm" by (blast dest: map_of_SomeD)
    qed
    then show "sim_threshold_met s' = (\<exists>key\<in>set (events m). map_of ?tm key = Some True)"
      using not_given nt by simp
  qed
  show ?thesis
    using step stop go given not_given declared by blast
qed

theorem C3_termination_predicate_witness:
  "loop_body (next_state_eqn two_event_model) (output_eqn two_event_model)
     (event_state two_event_model) constant_load (threshold_met two_event_model)
     (Some [''A'']) 1 5 before_B = Inr after_B \<and>
   threshold_met two_event_model (sim_t after_B) (sim_x after_B) = [(''A'', False), (''B'', True)] \<and>
   truthy (Some [''A'']) \<and> \<not> sim_threshold_met after_B \<and>
   loop_body (next_state_eqn two_event_model) (output_eqn two_event_model)
     (event_state two_event_model) constant_load (threshold_met two_event_model)
     (Some [''A'']) 1 5 before_A = Inr after_A \<and>
   threshold_met two_event_model (sim_t after_A) (sim_x after_A) = [(''A'', True), (''B'', True)] \<and>
   sim_threshold_met after_A \<and>
   simulate_loop (next_state_eqn two_event_model) (output_eqn two_event_model)
     (event_state two_event_model) constant_load (threshold_met two_event_model)
     (Some [''A'']) 1 5 1000 after_A = Some (Inr after_A) \<and>
   loop_body (next_state_eqn two_event_model) (output_eqn two_event_model)
     (event_state two_event_model) constant_load (threshold_met two_event_model)
     None 1 5 before_B = Inr after_B_any \<and>
   \<not> truthy None \<and> sim_threshold_met after_B_any \<and>
   simulate_loop (next_state_eqn two_event_model) (output_eqn two_event_model)
     (event_state two_event_model) constant_load (threshold_met two_event_model)
     None 1 5 1000 after_B_any = Some (Inr after_B_any) \<and>
   saved_times (simulate_to_threshold two_event_model (Callable constant_load) [(''pos'', 0)]
     two_event_options (Some [''A''])) = Some [0, 5, 10, 15, 20, 21] \<and>
   saved_times (simulate_to_threshold two_event_model (Callable constant_load) [(''pos'', 0)]
     two_event_options None) = Some [0, 3]"
proof -
  have B: "sim_threshold_met after_B =
      (\<exists>key\<in>set (key_list (Some [''A''])).
         map_of (threshold_met two_event_model (sim_t after_B) (sim_x after_B)) key = Some True)"
    using C3_termination_predicate [OF step_B, of 1000 two_event_model] by simp
  have A: "sim_threshold_met after_A =
      (\<exists>key\<in>set (key_list (Some [''A''])).
         map_of (threshold_met two_event_model (sim_t after_A) (sim_x after_A)) key = Some True)"
    and stop: "sim_threshold_met after_A \<longrightarrow>
      simulate_loop (next_state_eqn two_event_model) (output_eqn two_event_model)
       (event_state two_event_model) constant_load (threshold_met two_event_model)
       (Some [''A'']) 1 5 1000 after_A = Some (Inr after_A)"
    using C3_termination_predicate [OF step_A, of 1000 two_event_model] by simp_all
  have nt: "\<not> truthy None" by simp
  have ev: "events two_event_model = [''A'', ''B'']"
    by (simp add: two_event_model_def)
  have keys: "distinct (map fst (threshold_met two_event_model (sim_t after_B_any) (sim_x after_B_any)))"
    "set (map fst (threshold_met two_event_model (sim_t after_B_any) (sim_x after_B_any))) =
       set (events two_event_model)"
    by (simp_all add: thresholds_B_any ev)
  have N: "sim_threshold_met after_B_any =
      (\<exists>key\<in>set (events two_event_model).
         map_of (threshold_met two_event_model (sim_t after_B_any) (sim_x after_B_any)) key = Some True)"
    and stop_any: "sim_threshold_met after_B_any \<longrightarrow>
      simulate_loop (next_state_eqn two_event_model) (output_eqn two_event_model)
       (event_state two_event_model) constant_load (threshold_met two_event_model)
       None 1 5 1000 after_B_any = Some (Inr after_B_any)"
    using C3_termination_predicate [OF step_B_any, of 1000 two_event_model] keys nt by blast+
  have "\<not> sim_threshold_met after_B" using B by (simp add: thresholds_B)
  moreover have "sim_threshold_met after_A" using A by (simp add: thresholds_A)
  moreover have "sim_threshold_met after_B_any"
    using N by (simp add: thresholds_B_any ev)
  ultimately show ?thesis
    using step_A step_B step_B_any thresholds_A thresholds_B stop stop_any two_event_runs
    by simp
qed

subsection \<open>C4: the fixed-horizon wrapper\<close>

text \<open>
  Claim C4 says that for every options mapping \<^verbatim>\<open>simulate_to\<close> sets the horizon to
  \<^verbatim>\<open>time\<close> and installs the threshold equation that answers False. Both are defaults
  that \<^verbatim>\<open>config.update(options)\<close> overrides: with \<^verbatim>\<open>time = 3\<close>, an option
  \<^verbatim>\<open>horizon = 1\<close> makes the horizon 1 and the run stop at \<open>t = 1\<close>, and an option
  \<^verbatim>\<open>threshold_eqn\<close> that answers True stops the run at \<open>t = 1\<close> as well.
\<close>

theorem C4_counterexample:
  "cfg_horizon (config_update (to_defaults (PyInt 3)) horizon_options) = PyInt 1 \<and>
   saved_times (simulate_to linear_model (PyInt 3) (Callable constant_load) [(''pos'', 0)]
     horizon_options) = Some [0, 1] \<and>
   saved_times (simulate_to linear_model (PyInt 3) (Callable constant_load) [(''pos'', 0)]
     threshold_options) = Some [0, 1]"
  by code_simp

text \<open>
  C4, as amended: for every \<^verbatim>\<open>time\<close> that is a number greater than 0 and every options
  mapping that has neither the key \<^verbatim>\<open>horizon\<close> nor the key \<^verbatim>\<open>threshold_eqn\<close> (with
  valid \<^verbatim>\<open>dt\<close> and \<^verbatim>\<open>save_freq\<close>, a callable loading function and a first output
  that covers the output keys), \<^verbatim>\<open>simulate_to\<close> sets the horizon to \<^verbatim>\<open>time\<close> and
  installs a threshold equation that is false at every step, and delegates to
  \<^verbatim>\<open>simulate_to_threshold\<close>; the run is governed by the horizon alone: the result does
  not depend on the model's events or its threshold equation, and the run does not end
  before \<^verbatim>\<open>time\<close>.
\<close>

theorem C4_fixed_horizon:
  assumes time: "isinstance_Number time" "0 < num time"
    and opts: "opt_horizon opts = None" "opt_threshold_eqn opts = None"
    and cfg: "config = config_update (to_defaults time) opts"
    and dt: "type_is_int_or_float (cfg_dt config)" "0 < num (cfg_dt config)"
    and sf: "type_is_int_or_float (cfg_save_freq config)" "0 < num (cfg_save_freq config)"
    and covers: "list_all (\<lambda>key. key \<in> set (map fst fo)) (outputs m)"
  shows "cfg_horizon config = time \<and>
         cfg_threshold_eqn config = Some override_threshold \<and>
         (\<forall>t x. check_thresholds None (override_threshold t x) = Inr False) \<and>
         simulate_to m time (Callable f) fo opts =
           simulate_to_threshold m (Callable f) fo (as_options config) None \<and>
         (\<forall>evs g. simulate_to (m\<lparr>events := evs, threshold_eqn := g\<rparr>) time (Callable f) fo opts =
                  simulate_to m time (Callable f) fo opts) \<and>
         (\<exists>calls ts us xs zs es.
            simulate_to m time (Callable f) fo opts = Some (calls, Inr (ts, us, xs, zs, es)) \<and>
            num time \<le> last ts)"
proof -
  have valid: "\<not> config_invalid (cfg_dt config) (cfg_save_freq config)"
    using dt sf by (simp add: config_invalid_def)
  obtain s where s: "simulate_to m time (Callable f) fo opts = Some (returned s)"
    and fin: "history_final (num (cfg_dt config)) (num time) s"
    and t: "sim_t s = of_int \<lceil>num time / num (cfg_dt config)\<rceil> * num (cfg_dt config)"
    using simulate_to_fixed_horizon [OF time opts cfg valid covers] by blast
  have last: "last (sim_times s) = sim_t s"
    using fin by (simp add: history_final_def)
  have "num time / num (cfg_dt config) \<le> of_int \<lceil>num time / num (cfg_dt config)\<rceil>"
    by (rule le_of_int_ceiling)
  then have "num time \<le> of_int \<lceil>num time / num (cfg_dt config)\<rceil> * num (cfg_dt config)"
    using pos_divide_le_eq [OF dt(2)] by blast
  then have ge: "num time \<le> sim_t s"
    using t by simp
  have "cfg_horizon config = time" "cfg_threshold_eqn config = Some override_threshold"
    using opts cfg by (simp_all add: config_update_def to_defaults_def)
  moreover have "simulate_to m time (Callable f) fo opts =
           simulate_to_threshold m (Callable f) fo (as_options config) None"
    using time valid cfg by (simp add: simulate_to_def Let_def)
  moreover have "\<exists>calls ts us xs zs es.
            simulate_to m time (Callable f) fo opts = Some (calls, Inr (ts, us, xs, zs, es)) \<and>
            num time \<le> last ts"
    using s last ge by (simp add: returned_def)
  ultimately show ?thesis
    using check_thresholds_override simulate_to_model_events [OF opts(2)] by blast
qed

theorem C4_fixed_horizon_witness:
  "isinstance_Number (PyInt 3) \<and> 0 < num (PyInt 3) \<and>
   opt_horizon scenario_options = None \<and> opt_threshold_eqn scenario_options = None \<and>
   type_is_int_or_float (cfg_dt (config_update (to_defaults (PyInt 3)) scenario_options)) \<and>
   0 < num (cfg_dt (config_update (to_defaults (PyInt 3)) scenario_options)) \<and>
   type_is_int_or_float (cfg_save_freq (config_update (to_defaults (PyInt 3)) scenario_options)) \<and>
   0 < num (cfg_save_freq (config_update (to_defaults (PyInt 3)) scenario_options)) \<and>
   list_all (\<lambda>key. key \<in> set (map fst [(''pos'', 0 :: rat)])) (outputs linear_model) \<and>
   cfg_horizon (config_update (to_defaults (PyInt 3)) scenario_options) = PyInt 3 \<and>
   (\<exists>calls ts us xs zs es.
      simulate_to linear_model (PyInt 3) (Callable constant_load) [(''pos'', 0)]
        scenario_options = Some (calls, Inr (ts, us, xs, zs, es)) \<and>
      3 \<le> last ts)"
proof -
  let ?c = "config_update (to_defaults (PyInt 3)) scenario_options"
  have h: "isinstance_Number (PyInt 3)" "0 < num (PyInt 3)"
    "opt_horizon scenario_options = None" "opt_threshold_eqn scenario_options = None"
    "?c = ?c"
    "type_is_int_or_float (cfg_dt ?c)" "0 < num (cfg_dt ?c)"
    "type_is_int_or_float (cfg_save_freq ?c)" "0 < num (cfg_save_freq ?c)"
    "list_all (\<lambda>key. key \<in> set (map fst [(''pos'', 0 :: rat)])) (outputs linear_model)"
    by (simp_all add: config_update_def to_defaults_def scenario_options_def linear_model_def)
  from C4_fixed_horizon [OF h, of constant_load]
  obtain calls ts us xs zs es where
    hz: "cfg_horizon ?c = PyInt 3"
    and sim: "simulate_to linear_model (PyInt 3) (Callable constant_load) [(''pos'', 0)]
            scenario_options = Some (calls, Inr (ts, us, xs, zs, es))"
    and last: "num (PyInt 3) \<le> last ts"
    by blast
  have "3 \<le> last ts" using last by simp
  then show ?thesis
    using h(1-4,6-10) hz sim by blast
qed

subsection \<open>C5: the default threshold\<close>

text \<open>
  C5: for a model that does not override \<^verbatim>\<open>threshold_met\<close>, the result has the keys
  of \<^verbatim>\<open>event_state(t, x)\<close> and maps each key to whether its event state is less than
  0; an event state of exactly 0 is not met.
\<close>

theorem C5_default_threshold:
  assumes "threshold_eqn m = None"
  shows "map fst (threshold_met m t x) = map fst (event_state m t x) \<and>
         map_of (threshold_met m t x) key =
           map_option (\<lambda>v. v < 0) (map_of (event_state m t x) key) \<and>
         (map_of (event_state m t x) key = Some 0 \<longrightarrow>
            map_of (threshold_met m t x) key = Some False)"
proof -
  have tm: "threshold_met m t x = map (\<lambda>(key, v). (key, v < 0)) (event_state m t x)"
    using assms by (simp add: threshold_met_def)
  have "map_of (map (\<lambda>(key, v). (key, v < 0)) d) key = map_option (\<lambda>v. v < 0) (map_of d key)"
    for d :: vec
    by (induction d) auto
  then show ?thesis
    unfolding tm by (auto simp: comp_def case_prod_beta)
qed

theorem C5_default_threshold_witness:
  "threshold_eqn linear_model = None \<and>
   map_of (event_state linear_model 20 [(''pos'', 100)]) ''EOL'' = Some 0 \<and>
   map_of (threshold_met linear_model 20 [(''pos'', 100)]) ''EOL'' = Some False"
proof -
  have h: "threshold_eqn linear_model = None"
    by (simp add: linear_model_def)
  have e: "map_of (event_state linear_model 20 [(''pos'', 100)]) ''EOL'' = Some 0"
    by (simp add: linear_model_def event_state_def getv_def)
  show ?thesis
    using h e C5_default_threshold [OF h, of 20 "[(''pos'', 100)]" "''EOL''"] by blast
qed

subsection \<open>C6: the final state of a fixed-horizon run\<close>




subsection \<open>C7: the model factory\<close>

text \<open>
  C7: a model that \<^verbatim>\<open>generate_model\<close> returns for the equations \<open>f_init\<close>,
  \<open>f_next\<close>, \<open>f_out\<close> and the key lists gives, for every loading function, first
  output, options and threshold keys, the result of \<^verbatim>\<open>simulate_to_threshold\<close> that the
  statically declared model of the same key lists and the same three functions gives,
  wherever that model keeps its parameters.
\<close>

theorem C7_factory_equivalence:
  assumes "generate_model keys (Callable f_init) (Callable f_next) (Callable f_out) Falsy Falsy
             config h = (h', Inr m)"
  shows "\<exists>ins sts outs.
           map_of keys ''inputs'' = Some ins \<and> map_of keys ''states'' = Some sts \<and>
           map_of keys ''outputs'' = Some outs \<and>
           (\<forall>p fl fo opts tk.
              simulate_to_threshold m fl fo opts tk =
              simulate_to_threshold
                (static_model p ins sts outs
                   (case map_of keys ''events'' of None \<Rightarrow> [] | Some evs \<Rightarrow> evs)
                   f_init f_next f_out) fl fo opts tk)"
proof -
  from assms obtain ins sts outs where keys: "map_of keys ''inputs'' = Some ins"
      "map_of keys ''states'' = Some sts" "map_of keys ''outputs'' = Some outs"
    by (auto simp: generate_model_def split: option.splits)
  let ?evs = "case map_of keys ''events'' of None \<Rightarrow> [] | Some evs \<Rightarrow> evs"
  have m: "m = \<lparr> parameters = PrognosticsModel_parameters, inputs = ins, states = sts,
                 outputs = outs, events = ?evs,
                 initialize_eqn = f_init, next_state_eqn = f_next, output_eqn = f_out,
                 event_state_eqn = None, threshold_eqn = None \<rparr>"
    using assms keys by (auto simp: generate_model_def Let_def split: option.splits)
  have "simulate_to_threshold m fl fo opts tk =
        simulate_to_threshold (static_model p ins sts outs ?evs f_init f_next f_out) fl fo opts tk"
    for p fl fo opts tk
    by (rule simulate_to_threshold_same) (simp_all add: m static_model_def)
  then show ?thesis using keys by blast
qed

theorem C7_factory_equivalence_witness:
  "generate_model example_keys (Callable (initialize_eqn linear_model))
     (Callable (next_state_eqn linear_model)) (Callable (output_eqn linear_model)) Falsy Falsy
     [(''process_noise'', Num (1 / 10))] empty_store = (fst first_generated, Inr generated_model) \<and>
   simulate_to_threshold generated_model (Callable constant_load) [(''pos'', 0)]
     horizon_options None =
   simulate_to_threshold
     (static_model 7 [''rate''] [''pos''] [''pos''] [] (initialize_eqn linear_model)
        (next_state_eqn linear_model) (output_eqn linear_model))
     (Callable constant_load) [(''pos'', 0)] horizon_options None \<and>
   saved_times (simulate_to_threshold generated_model (Callable constant_load) [(''pos'', 0)]
     horizon_options None) = Some [0, 1]"
proof -
  have k: "map_of example_keys ''inputs'' = Some [''rate'']"
    "map_of example_keys ''states'' = Some [''pos'']"
    "map_of example_keys ''outputs'' = Some [''pos'']"
    "map_of example_keys ''events'' = None"
    by (simp_all add: example_keys_def)
  have "simulate_to_threshold generated_model (Callable constant_load) [(''pos'', 0)]
          horizon_options None =
        simulate_to_threshold
          (static_model 7 [''rate''] [''pos''] [''pos''] [] (initialize_eqn linear_model)
             (next_state_eqn linear_model) (output_eqn linear_model))
          (Callable constant_load) [(''pos'', 0)] horizon_options None"
    using C7_factory_equivalence [OF first_generated_model] k by simp
  moreover have "saved_times (simulate_to_threshold generated_model (Callable constant_load)
     [(''pos'', 0)] horizon_options None) = Some [0, 1]"
    by code_simp
  ultimately show ?thesis using first_generated_model by simp
qed

subsection \<open>C8: the parameters of two instances\<close>

text \<open>
  C8 says that constructing one instance leaves the parameters of another unchanged.
  Evaluated on the code: the first generated model is built with
  \<^verbatim>\<open>process_noise = 0.1\<close> and its parameters hold \<^verbatim>\<open>{'pos': 0.1}\<close>; after the second
  is built with \<^verbatim>\<open>process_noise = 0.5\<close>, the parameters of the first hold
  \<^verbatim>\<open>{'pos': 0.5}\<close>, because both instances update the one dict of the class attribute.
\<close>

theorem C8_shared_parameters:
  "instance_parameters (fst first_generated) (snd first_generated) =
     Some [(''process_noise'', PerKey [(''pos'', 1 / 10)])] \<and>
   instance_parameters (fst second_generated) (snd second_generated) =
     Some [(''process_noise'', PerKey [(''pos'', 1 / 2)])] \<and>
   instance_parameters (fst second_generated) (snd first_generated) =
     Some [(''process_noise'', PerKey [(''pos'', 1 / 2)])]"
  by code_simp

subsection \<open>C9: input and configuration errors\<close>

text \<open>
  Claim C9 says that the input exception is raised exactly when, among other things,
  \<^verbatim>\<open>dt\<close> or \<^verbatim>\<open>save_freq\<close> is non-numeric or non-positive. The code tests the exact
  type: \<^verbatim>\<open>dt = True\<close> is a number greater than 0 (and would be accepted as
  \<^verbatim>\<open>time\<close>), none of the claim's conditions holds, and \<^verbatim>\<open>simulate_to_threshold\<close>
  raises the input exception.
\<close>

theorem C9_counterexample:
  "\<not> claimed_rejected linear_model (Callable constant_load) [(''pos'', 0)]
       (config_update threshold_defaults bool_options) None \<and>
   simulate_to_threshold linear_model (Callable constant_load) [(''pos'', 0)] bool_options None =
     Some ([], Inl ProgModelInputException)"
proof -
  have "\<not> claimed_rejected linear_model (Callable constant_load) [(''pos'', 0)]
       (config_update threshold_defaults bool_options) None"
    by (simp add: claimed_rejected_def config_update_def threshold_defaults_def bool_options_def
        linear_model_def)
  moreover have "simulate_to_threshold linear_model (Callable constant_load) [(''pos'', 0)]
      bool_options None = Some ([], Inl ProgModelInputException)"
    by (simp add: simulate_to_threshold_def config_update_def threshold_defaults_def
        bool_options_def linear_model_def config_invalid_def)
  ultimately show ?thesis by simp
qed

text \<open>
  C9, as amended: \<^verbatim>\<open>simulate_to_threshold\<close> raises the input exception exactly when
  the first output lacks an output key, the loading function is not callable, a
  threshold key is no declared event, or \<^verbatim>\<open>dt\<close> or \<^verbatim>\<open>save_freq\<close> is not of the
  exact type int or float or is not positive (see \<open>rejected\<close>); \<^verbatim>\<open>simulate_to\<close> raises
  it exactly when the time is not an instance of Number greater than 0 or its arguments
  are rejected in that sense; whenever either raises it, the log of calls to the loading
  function and the model's equations is empty.
\<close>

theorem C9_input_errors:
  "((\<exists>calls. simulate_to_threshold m fl fo opts tk = Some (calls, Inl ProgModelInputException)) \<longleftrightarrow>
      rejected m fl fo (config_update threshold_defaults opts) tk) \<and>
   (\<forall>calls. simulate_to_threshold m fl fo opts tk = Some (calls, Inl ProgModelInputException) \<longrightarrow>
      calls = []) \<and>
   ((\<exists>calls. simulate_to m time fl fo opts = Some (calls, Inl ProgModelInputException)) \<longleftrightarrow>
      \<not> isinstance_Number time \<or> num time \<le> 0 \<or>
      rejected m fl fo (config_update (to_defaults time) opts) None) \<and>
   (\<forall>calls. simulate_to m time fl fo opts = Some (calls, Inl ProgModelInputException) \<longrightarrow>
      calls = [])"
  by (simp add: simulate_to_threshold_input_error simulate_to_input_error)

theorem C9_input_errors_witness:
  "rejected linear_model (Callable constant_load) [(''pos'', 0)]
     (config_update threshold_defaults bad_options) None \<and>
   simulate_to_threshold linear_model (Callable constant_load) [(''pos'', 0)] bad_options None =
     Some ([], Inl ProgModelInputException)"
proof -
  have r: "rejected linear_model (Callable constant_load) [(''pos'', 0)]
     (config_update threshold_defaults bad_options) None"
    by (simp add: rejected_def config_update_def threshold_defaults_def bad_options_def)
  then obtain calls where
    "simulate_to_threshold linear_model (Callable constant_load) [(''pos'', 0)] bad_options None =
       Some (calls, Inl ProgModelInputException)" and "calls = []"
    using C9_input_errors [of linear_model "Callable constant_load" "[(''pos'', 0)]"
        bad_options None] by blast
  then show ?thesis using r by simp
qed

subsection \<open>C10: construction\<close>

text \<open>
  C10: \<^verbatim>\<open>__init__\<close> fails with the type error exactly when the parameters, after the
  update by the options, lack \<^verbatim>\<open>process_noise\<close>, or \<^verbatim>\<open>inputs\<close>, \<^verbatim>\<open>states\<close> or
  \<^verbatim>\<open>outputs\<close> is missing or empty, and it fails with no other error; when it succeeds
  and \<^verbatim>\<open>process_noise\<close> was a number, the entry becomes a mapping whose keys are the
  state keys, each mapped to that number.
\<close>

theorem C10_construction:
  fixes cls :: pyclass and opts :: "pvalue dict" and h :: store
  defines "merged \<equiv> dict_update (h (cls_parameters cls)) opts"
  shows
    "(snd (PrognosticsModel_init cls opts h) = Some ProgModelTypeError \<longleftrightarrow>
        ''process_noise'' \<notin> set (map fst merged) \<or>
        cls_inputs cls = None \<or> cls_inputs cls = Some [] \<or>
        cls_states cls = None \<or> cls_states cls = Some [] \<or>
        cls_outputs cls = None \<or> cls_outputs cls = Some []) \<and>
     (snd (PrognosticsModel_init cls opts h) \<noteq> Some ProgModelTypeError \<longrightarrow>
        snd (PrognosticsModel_init cls opts h) = None) \<and>
     (snd (PrognosticsModel_init cls opts h) = None \<and>
      map_of merged ''process_noise'' = Some (Num v) \<longrightarrow>
        (\<exists>sts d. cls_states cls = Some sts \<and>
           map_of (fst (PrognosticsModel_init cls opts h) (cls_parameters cls)) ''process_noise''
             = Some (PerKey d) \<and>
           set (map fst d) = set sts \<and>
           (\<forall>key\<in>set sts. map_of d key = Some v)))"
proof -
  let ?r = "PrognosticsModel_init cls opts h"
  have err: "snd ?r = Some ProgModelTypeError \<longleftrightarrow>
        ''process_noise'' \<notin> set (map fst merged) \<or>
        cls_inputs cls = None \<or> cls_inputs cls = Some [] \<or>
        cls_states cls = None \<or> cls_states cls = Some [] \<or>
        cls_outputs cls = None \<or> cls_outputs cls = Some []"
    by (auto simp: PrognosticsModel_init_def merged_def Let_def missing_or_empty_iff
        split: option.splits pvalue.splits)
  have only: "snd ?r \<noteq> Some ProgModelTypeError \<longrightarrow> snd ?r = None"
    by (auto simp: PrognosticsModel_init_def Let_def split: option.splits pvalue.splits)
  have bc: "snd ?r = None \<and> map_of merged ''process_noise'' = Some (Num v) \<longrightarrow>
        (\<exists>sts d. cls_states cls = Some sts \<and>
           map_of (fst ?r (cls_parameters cls)) ''process_noise'' = Some (PerKey d) \<and>
           set (map fst d) = set sts \<and>
           (\<forall>key\<in>set sts. map_of d key = Some v))"
  proof (intro impI, elim conjE)
    assume ok: "snd ?r = None" and pn: "map_of merged ''process_noise'' = Some (Num v)"
    from ok err obtain sts where sts: "cls_states cls = Some sts"
      by (cases "cls_states cls") auto
    have passed: "\<not> (''process_noise'' \<notin> set (map fst merged))"
      "\<not> missing_or_empty (cls_inputs cls)" "\<not> missing_or_empty (cls_states cls)"
      "\<not> missing_or_empty (cls_outputs cls)"
      using ok err by (auto simp: missing_or_empty_iff)
    have "fst ?r (cls_parameters cls) =
          AList.update ''process_noise'' (PerKey (broadcast v sts)) merged"
      using passed pn sts unfolding PrognosticsModel_init_def merged_def Let_def
      by simp
    then have "map_of (fst ?r (cls_parameters cls)) ''process_noise'' =
               Some (PerKey (broadcast v sts))"
      by (simp add: update_conv')
    then show "\<exists>sts d. cls_states cls = Some sts \<and>
           map_of (fst ?r (cls_parameters cls)) ''process_noise'' = Some (PerKey d) \<and>
           set (map fst d) = set sts \<and>
           (\<forall>key\<in>set sts. map_of d key = Some v)"
      using sts broadcast_keys broadcast_lookup by (metis (lifting))
  qed
  show ?thesis using err only bc by blast
qed

theorem C10_construction_witness:
  "snd (PrognosticsModel_init example_class [(''process_noise'', Num (1 / 10))] empty_store) = None \<and>
   map_of (dict_update (empty_store (cls_parameters example_class))
             [(''process_noise'', Num (1 / 10))]) ''process_noise'' = Some (Num (1 / 10)) \<and>
   (\<exists>d. map_of (fst (PrognosticsModel_init example_class [(''process_noise'', Num (1 / 10))]
                      empty_store) (cls_parameters example_class)) ''process_noise''
           = Some (PerKey d) \<and>
        map_of d ''pos'' = Some (1 / 10))"
proof -
  let ?opts = "[(''process_noise'', Num (1 / 10))]"
  have ok: "snd (PrognosticsModel_init example_class ?opts empty_store) = None"
    by code_simp
  have pn: "map_of (dict_update (empty_store (cls_parameters example_class)) ?opts)
              ''process_noise'' = Some (Num (1 / 10))"
    by code_simp
  have sts: "cls_states example_class = Some [''pos'']"
    by (simp add: example_class_def)
  from C10_construction [of example_class ?opts empty_store "1 / 10"] ok pn
  obtain sts' d where "cls_states example_class = Some sts'"
    and d: "map_of (fst (PrognosticsModel_init example_class ?opts empty_store)
              (cls_parameters example_class)) ''process_noise'' = Some (PerKey d)"
    and all: "\<forall>key\<in>set sts'. map_of d key = Some (1 / 10)"
    by blast
  then have "map_of d ''pos'' = Some (1 / 10)" using sts by auto
  then show ?thesis using ok pn d by blast
qed

end
